theory Spec2Isabelle
  imports Complex_Main "HOL-Library.Product_Lexorder"
begin

section \<open>The hyperparameter dashboard of \<open>optimization.py\<close>\<close>

text \<open>
  The script is one Streamlit page: sidebar widgets (lines 18 to 41), the grid
  construction (lines 43 to 46), the function \<open>model\<close> (lines 61 to 116) and the
  handler of the Build Model button (lines 119 to 142). Everything the widgets return
  is an integer, a boolean or a list of strings; scores are modelled as reals.
\<close>

subsection \<open>Errors\<close>

text \<open>
  The script has no \<open>raise\<close> of its own. Every failure is an exception of the Python
  runtime or of a library, named here by its Python class.
\<close>

datatype error =
    NameError string
  | ValueError
  | KeyError string
  | TypeError
  | IndexError
  | ZeroDivisionError

subsection \<open>Sidebar configuration (lines 18 to 41)\<close>

record config =
  split_size :: int
  parameter_n_estimators :: "int \<times> int"
  parameter_n_estimators_step :: int
  parameter_max_features :: "string list"
  parameter_max_depth :: "int \<times> int"
  parameter_max_depth_step :: int
  parameter_criterion :: string
  parameter_cross_validation :: int
  parameter_random_state :: int
  parameter_bootstrap :: bool
  parameter_n_jobs :: int

text \<open>The values the widgets show before the user touches them.\<close>

definition default_config :: config where
  "default_config =
     \<lparr> split_size = 80,
       parameter_n_estimators = (10, 50),
       parameter_n_estimators_step = 10,
       parameter_max_features = [''auto''],
       parameter_max_depth = (5, 8),
       parameter_max_depth_step = 1,
       parameter_criterion = ''gini'',
       parameter_cross_validation = 2,
       parameter_random_state = 42,
       parameter_bootstrap = True,
       parameter_n_jobs = 1 \<rparr>"

text \<open>
  What the widgets can return: a slider stays between its bounds, a range slider
  returns an ordered pair, \<open>number_input(label, 10)\<close> has minimum 10 and
  \<open>number_input(label, 1, 3)\<close> has minimum 1 and maximum 3, a multiselect returns a
  duplicate-free sublist of its options, in the order chosen.
\<close>

definition widget_values :: "config \<Rightarrow> bool" where
  "widget_values c \<longleftrightarrow>
     50 \<le> split_size c \<and> split_size c \<le> 90 \<and>
     0 \<le> fst (parameter_n_estimators c) \<and>
     fst (parameter_n_estimators c) \<le> snd (parameter_n_estimators c) \<and>
     snd (parameter_n_estimators c) \<le> 500 \<and>
     10 \<le> parameter_n_estimators_step c \<and>
     set (parameter_max_features c) \<subseteq> {''auto'', ''sqrt'', ''log2''} \<and>
     distinct (parameter_max_features c) \<and>
     5 \<le> fst (parameter_max_depth c) \<and>
     fst (parameter_max_depth c) \<le> snd (parameter_max_depth c) \<and>
     snd (parameter_max_depth c) \<le> 15 \<and>
     1 \<le> parameter_max_depth_step c \<and> parameter_max_depth_step c \<le> 3 \<and>
     parameter_criterion c \<in> {''gini'', ''entropy''} \<and>
     2 \<le> parameter_cross_validation c \<and> parameter_cross_validation c \<le> 10 \<and>
     0 \<le> parameter_random_state c \<and> parameter_random_state c \<le> 1000 \<and>
     parameter_n_jobs c \<in> {1, -1}"

subsection \<open>Grid construction (lines 43 to 46)\<close>

text \<open>
  \<open>np.arange(start, stop, step)\<close> on integers: the values \<open>start + i * step\<close> for
  \<open>0 \<le> i < \<lceil>(stop - start) / step\<rceil>\<close>, none when that count is not positive;
  a zero step raises.
\<close>

definition arange_len :: "int \<Rightarrow> int \<Rightarrow> int \<Rightarrow> nat" where
  "arange_len start stop step = nat (- ((start - stop) div step))"

definition arange :: "int \<Rightarrow> int \<Rightarrow> int \<Rightarrow> error + int list" where
  "arange start stop step =
     (if step = 0 then Inl ZeroDivisionError
      else Inr (map (\<lambda>i. start + int i * step) [0 ..< arange_len start stop step]))"

definition n_estimators_range :: "config \<Rightarrow> error + int list" where
  "n_estimators_range c =
     arange (fst (parameter_n_estimators c))
            (snd (parameter_n_estimators c) + parameter_n_estimators_step c)
            (parameter_n_estimators_step c)"

definition max_depth_range :: "config \<Rightarrow> error + int list" where
  "max_depth_range c =
     arange (fst (parameter_max_depth c))
            (snd (parameter_max_depth c) + parameter_max_depth_step c)
            (parameter_max_depth_step c)"

text \<open>The dictionary \<open>param_grid\<close> has exactly three keys, so it is a record.\<close>

record param_grid =
  max_features :: "string list"
  n_estimators :: "int list"
  max_depth :: "int list"

definition make_param_grid :: "config \<Rightarrow> error + param_grid" where
  "make_param_grid c =
     (case n_estimators_range c of
        Inl e \<Rightarrow> Inl e
      | Inr ns \<Rightarrow>
          (case max_depth_range c of
             Inl e \<Rightarrow> Inl e
           | Inr ds \<Rightarrow>
               Inr \<lparr> max_features = parameter_max_features c,
                     n_estimators = ns,
                     max_depth = ds \<rparr>))"

text \<open>Consecutive elements of a list differ by exactly \<open>d\<close>.\<close>

definition spaced :: "int \<Rightarrow> int list \<Rightarrow> bool" where
  "spaced d xs \<longleftrightarrow> (\<forall>i. Suc i < length xs \<longrightarrow> xs ! Suc i - xs ! i = d)"

text \<open>
  The three properties section 8 of the specification lists for an expanded range, and
  what lines 44 and 45 give instead of the second one.
\<close>

definition within_range :: "int \<Rightarrow> int \<Rightarrow> int \<Rightarrow> int list \<Rightarrow> bool" where
  "within_range lo hi step xs \<longleftrightarrow>
     Min (set xs) = lo \<and> Max (set xs) \<le> hi \<and> spaced step xs"

definition reaches_range :: "int \<Rightarrow> int \<Rightarrow> int \<Rightarrow> int list \<Rightarrow> bool" where
  "reaches_range lo hi step xs \<longleftrightarrow>
     xs \<noteq> [] \<and> Min (set xs) = lo \<and> spaced step xs \<and>
     hi \<le> Max (set xs) \<and> Max (set xs) < hi + step \<and>
     (Max (set xs) = hi \<longleftrightarrow> step dvd (hi - lo))"

subsection \<open>Data\<close>

text \<open>
  A DataFrame is a list of named columns of equal length; the array handed to
  scikit-learn is the list of its columns. Labels are the values of the column
  \<open>target\<close>.
\<close>

type_synonym frame = "(string \<times> real list) list"
type_synonym matrix = "real list list"

text \<open>\<open>df['target']\<close> raises \<open>KeyError\<close> when the column is missing.\<close>

definition column :: "frame \<Rightarrow> string \<Rightarrow> error + real list" where
  "column df name = (case map_of df name of None \<Rightarrow> Inl (KeyError name) | Some v \<Rightarrow> Inr v)"

text \<open>\<open>df.drop(['target'], axis=1)\<close>, as the array of the remaining columns.\<close>

definition drop_column :: "frame \<Rightarrow> string \<Rightarrow> matrix" where
  "drop_column df name = map snd (filter (\<lambda>(n, v). n \<noteq> name) df)"

text \<open>
  Selecting rows by position, \<open>a[ind]\<close>. A position past the end raises \<open>IndexError\<close>;
  \<open>train_test_split\<close> below checks the positions before it selects.
\<close>

definition take_rows :: "nat list \<Rightarrow> real list \<Rightarrow> real list" where
  "take_rows ind col = map (\<lambda>i. col ! i) ind"

subsection \<open>Data splitting (line 66)\<close>

text \<open>
  \<open>train_test_split(X, Y, test_size=split_size)\<close> with an integer \<open>test_size\<close> and no
  \<open>train_size\<close>: scikit-learn takes the integer as the number of test rows, rejects it
  unless \<open>0 < test_size < n_samples\<close>, and gives the training partition the rest.
\<close>

definition validate_shuffle_split :: "nat \<Rightarrow> int \<Rightarrow> error + nat \<times> nat" where
  "validate_shuffle_split n_samples test_size =
     (if test_size \<ge> int n_samples \<or> test_size \<le> 0 then Inl ValueError
      else let n_test = nat test_size; n_train = n_samples - n_test
           in if n_train = 0 then Inl ValueError else Inr (n_train, n_test))"

text \<open>
  No \<open>random_state\<close> is passed, so the shuffle is \<open>permutation(n_samples)\<close> of numpy's
  global generator: an input of the model that no widget determines. The first
  \<open>n_test\<close> positions of the permutation are the test rows, the next \<open>n_train\<close> the
  training rows. The result is \<open>(X_train, X_test, Y_train, Y_test)\<close>.
\<close>

definition train_test_split ::
  "nat list \<Rightarrow> matrix \<Rightarrow> real list \<Rightarrow> int
     \<Rightarrow> error + matrix \<times> matrix \<times> real list \<times> real list" where
  "train_test_split permutation X Y test_size =
     (case validate_shuffle_split (length Y) test_size of
        Inl e \<Rightarrow> Inl e
      | Inr (n_train, n_test) \<Rightarrow>
          let ind_test = take n_test permutation;
              ind_train = take n_train (drop n_test permutation)
          in if list_all (\<lambda>i. i < length Y) (ind_test @ ind_train)
             then Inr (map (take_rows ind_train) X, map (take_rows ind_test) X,
                       take_rows ind_train Y, take_rows ind_test Y)
             else Inl IndexError)"

subsection \<open>Standardization (lines 69 to 71)\<close>

text \<open>
  \<open>StandardScaler\<close> keeps, per feature, the mean and the scale it was fitted on (its
  attributes \<open>mean_\<close> and \<open>scale_\<close>); the scale is the square root of the population
  variance, and 1 where that is 0.
\<close>

record StandardScaler =
  scaler_mean :: "real list"
  scaler_scale :: "real list"

definition mean :: "real list \<Rightarrow> real" where
  "mean xs = sum_list xs / real (length xs)"

definition var :: "real list \<Rightarrow> real" where
  "var xs = mean (map (\<lambda>x. (x - mean xs)\<^sup>2) xs)"

definition handle_zeros_in_scale :: "real \<Rightarrow> real" where
  "handle_zeros_in_scale s = (if s = 0 then 1 else s)"

text \<open>An array with no feature or no sample is rejected.\<close>

definition check_array :: "matrix \<Rightarrow> bool" where
  "check_array X \<longleftrightarrow> X \<noteq> [] \<and> list_all (\<lambda>col. col \<noteq> []) X"

definition fit :: "matrix \<Rightarrow> error + StandardScaler" where
  "fit X =
     (if check_array X
      then Inr \<lparr> scaler_mean = map mean X,
                 scaler_scale = map (\<lambda>col. handle_zeros_in_scale (sqrt (var col))) X \<rparr>
      else Inl ValueError)"

definition standardize :: "real \<Rightarrow> real \<Rightarrow> real list \<Rightarrow> real list" where
  "standardize m s col = map (\<lambda>x. (x - m) / s) col"

definition transform :: "StandardScaler \<Rightarrow> matrix \<Rightarrow> error + matrix" where
  "transform sc X =
     (if check_array X \<and> length X = length (scaler_mean sc)
      then Inr (map (\<lambda>(col, m, s). standardize m s col)
                    (zip X (zip (scaler_mean sc) (scaler_scale sc))))
      else Inl ValueError)"

text \<open>\<open>sc.fit_transform(X)\<close> fits \<open>sc\<close> and transforms \<open>X\<close> with it.\<close>

definition fit_transform :: "matrix \<Rightarrow> error + StandardScaler \<times> matrix" where
  "fit_transform X =
     (case fit X of
        Inl e \<Rightarrow> Inl e
      | Inr sc \<Rightarrow> (case transform sc X of Inl e \<Rightarrow> Inl e | Inr X' \<Rightarrow> Inr (sc, X')))"

subsection \<open>The search (lines 74 to 76)\<close>

text \<open>The arguments of \<open>RandomForestClassifier\<close> on line 74.\<close>

record forest =
  random_state :: int
  bootstrap :: bool
  n_jobs :: int

text \<open>One grid point, a dictionary of \<open>cv_results_["params"]\<close>.\<close>

record candidate =
  cand_max_depth :: int
  cand_max_features :: string
  cand_n_estimators :: int

text \<open>
  What the script reads from the fitted \<open>GridSearchCV\<close>: \<open>cv_results_\<close> (each grid
  point with its \<open>mean_test_score\<close>, in the order of evaluation), \<open>best_params_\<close>,
  \<open>best_score_\<close> and \<open>predict\<close>.
\<close>

record fitted_search =
  cv_results :: "(candidate \<times> real) list"
  best_params :: candidate
  best_score :: real
  predict :: "matrix \<Rightarrow> real list"

text \<open>
  Training and cross-validating the forests is scikit-learn's work and is not
  modelled: the library is a parameter. \<open>GridSearchCV_init\<close> is the constructor with
  the argument checks it makes; \<open>GridSearchCV_fit\<close> is \<open>grid.fit(X_train, Y_train)\<close>;
  \<open>get_dummies\<close> is the one-hot encoding of line 121.
\<close>

record library =
  get_dummies :: "frame \<Rightarrow> error + frame"
  GridSearchCV_init :: "forest \<Rightarrow> param_grid \<Rightarrow> int \<Rightarrow> error + unit"
  GridSearchCV_fit ::
    "forest \<Rightarrow> param_grid \<Rightarrow> int \<Rightarrow> matrix \<Rightarrow> real list \<Rightarrow> error + fitted_search"

subsection \<open>Metrics (lines 83, 126 and 140)\<close>

text \<open>
  How many positions of two label lists satisfy a condition on the pair. The accuracy
  is the share of equal pairs; the lists it gets on line 83 have at least one row,
  and for lists without rows, where the share is not a number, the model has an
  error.
\<close>

definition count_pairs :: "(real \<times> real \<Rightarrow> bool) \<Rightarrow> real list \<Rightarrow> real list \<Rightarrow> nat" where
  "count_pairs P y_true y_pred = length (filter P (zip y_true y_pred))"

definition accuracy_score :: "real list \<Rightarrow> real list \<Rightarrow> error + real" where
  "accuracy_score y_true y_pred =
     (if length y_true \<noteq> length y_pred \<or> y_true = [] then Inl ValueError
      else Inr (real (count_pairs (\<lambda>(t, p). t = p) y_true y_pred) / real (length y_true)))"

text \<open>
  One row of \<open>classification_report(..., output_dict=True)\<close>. With the default
  \<open>zero_division\<close>, a ratio with denominator 0 is reported as 0 and a warning is
  issued; \<open>undefined_metric\<close> records that warning.
\<close>

record class_report =
  precision :: real
  recall :: real
  f1_score :: real
  undefined_metric :: bool

definition ratio :: "nat \<Rightarrow> nat \<Rightarrow> real" where
  "ratio a b = (if b = 0 then 0 else real a / real b)"

definition report_for :: "real list \<Rightarrow> real list \<Rightarrow> real \<Rightarrow> class_report" where
  "report_for y_true y_pred l =
     (let tp = count_pairs (\<lambda>(t, p). t = l \<and> p = l) y_true y_pred;
          predicted = count_pairs (\<lambda>(t, p). p = l) y_true y_pred;
          actual = count_pairs (\<lambda>(t, p). t = l) y_true y_pred;
          pr = ratio tp predicted;
          rc = ratio tp actual
      in \<lparr> precision = pr, recall = rc,
           f1_score = (if pr + rc = 0 then 0 else 2 * pr * rc / (pr + rc)),
           undefined_metric = (predicted = 0 \<or> actual = 0) \<rparr>)"

definition classification_report ::
  "real list \<Rightarrow> real list \<Rightarrow> real list \<Rightarrow> error + (real \<times> class_report) list" where
  "classification_report y_true y_pred labels =
     (if length y_true \<noteq> length y_pred then Inl ValueError
      else Inr (map (\<lambda>l. (l, report_for y_true y_pred l)) labels))"

text \<open>
  \<open>confusion_matrix\<close> as \<open>plot_confusion_matrix\<close> calls it, with no \<open>labels\<close>: the
  classes are the sorted distinct values of both lists, rows are true classes,
  columns predicted ones.
\<close>

definition confusion_matrix :: "real list \<Rightarrow> real list \<Rightarrow> error + nat list list" where
  "confusion_matrix y_true y_pred =
     (if length y_true \<noteq> length y_pred then Inl ValueError
      else let classes = sort (remdups (y_true @ y_pred))
           in Inr (map (\<lambda>t. map (\<lambda>p. count_pairs (\<lambda>(a, b). a = t \<and> b = p) y_true y_pred)
                                 classes) classes))"

subsection \<open>The accuracy surface (lines 93 to 100)\<close>

text \<open>
  Line 93 puts the grid points and their scores side by side. A table without rows
  has no column \<open>max_depth\<close>, and grouping by it raises \<open>KeyError\<close>.
  \<open>groupby(['max_depth', 'n_estimators']).mean()\<close> gives one row per distinct key,
  the keys in ascending order, with the mean of the scores of that key; the text
  column \<open>max_features\<close> is dropped.
\<close>

definition group_key :: "candidate \<times> real \<Rightarrow> int \<times> int" where
  "group_key r = (cand_max_depth (fst r), cand_n_estimators (fst r))"

definition groupby_mean :: "(candidate \<times> real) list \<Rightarrow> error + ((int \<times> int) \<times> real) list" where
  "groupby_mean grid_results =
     (if grid_results = [] then Inl (KeyError ''max_depth'')
      else Inr (map (\<lambda>k. (k, mean (map snd (filter (\<lambda>r. group_key r = k) grid_results))))
                    (sort (remdups (map group_key grid_results)))))"

text \<open>
  \<open>pivot('max_depth', 'n_estimators')\<close>: the index is the sorted distinct
  \<open>max_depth\<close>, the columns the sorted distinct \<open>n_estimators\<close>; a cell without a row
  is NaN, here \<open>None\<close>; two rows for one cell raise \<open>ValueError\<close>.
\<close>

definition pivot ::
  "((int \<times> int) \<times> real) list \<Rightarrow> error + int list \<times> int list \<times> real option list list" where
  "pivot grid_reset =
     (if \<not> distinct (map fst grid_reset) then Inl ValueError
      else let index = sort (remdups (map (fst \<circ> fst) grid_reset));
               columns = sort (remdups (map (snd \<circ> fst) grid_reset))
           in Inr (index, columns,
                   map (\<lambda>d. map (\<lambda>n. map_of grid_reset (d, n)) columns) index))"

text \<open>The three arrays handed to \<open>go.Surface\<close>: \<open>x\<close>, \<open>y\<close> and \<open>z\<close>.\<close>

definition surface ::
  "(candidate \<times> real) list \<Rightarrow> error + int list \<times> int list \<times> real option list list" where
  "surface grid_results =
     (case groupby_mean grid_results of
        Inl e \<Rightarrow> Inl e
      | Inr grid_reset \<Rightarrow>
          (case pivot grid_reset of
             Inl e \<Rightarrow> Inl e
           | Inr (index, columns, values) \<Rightarrow> Inr (columns, index, values)))"

subsection \<open>Runs\<close>

text \<open>
  A run of the script is observed through the library calls it makes, with the
  arguments that matter here, and the results it puts on the page, in order. Titles, captions and the parameter dump of line 90
  are fixed text and are left out.
\<close>

datatype event =
    Get_dummies
  | Train_test_split int
  | Fit_transform
  | Transform
  | New_forest forest
  | New_search param_grid int
  | Search_fit matrix "real list" int
  | Predict matrix
  | Shown_accuracy real
  | Shown_best candidate real
  | Shown_surface "int list" "int list" "real option list list"
  | Shown_report "(real \<times> class_report) list"
  | Shown_confusion "nat list list"

text \<open>
  A computation gives the events so far and either the exception that ended it or its
  value. \<open>call ev r\<close> is a library call that is logged as \<open>ev\<close> and returned \<open>r\<close>;
  \<open>and_then\<close> is sequencing: an exception skips everything after it.
\<close>

type_synonym 'a run = "event list \<times> (error + 'a)"

definition returns :: "'a \<Rightarrow> 'a run" where
  "returns a = ([], Inr a)"

definition evaluate :: "error + 'a \<Rightarrow> 'a run" where
  "evaluate r = ([], r)"

definition call :: "event \<Rightarrow> error + 'a \<Rightarrow> 'a run" where
  "call ev r = ([ev], r)"

definition emit :: "event \<Rightarrow> unit run" where
  "emit ev = ([ev], Inr ())"

definition prefixed :: "event list \<Rightarrow> 'a run \<Rightarrow> 'a run" where
  "prefixed t r = (t @ fst r, snd r)"

definition and_then :: "'a run \<Rightarrow> ('a \<Rightarrow> 'b run) \<Rightarrow> 'b run" where
  "and_then m f =
     (case snd m of
        Inl e \<Rightarrow> (fst m, Inl e)
      | Inr a \<Rightarrow> prefixed (fst m) (f a))"

subsection \<open>The function \<open>model\<close> (lines 61 to 116)\<close>

text \<open>
  \<open>model\<close> reads the module-level names \<open>split_size\<close>, \<open>param_grid\<close> and the
  \<open>parameter_\<close> values; every name it assigns (\<open>Y_test\<close>, \<open>Y_pred_test\<close>, \<open>grid\<close>,
  \<open>X_test\<close> among them) is local to the call, since the body has no \<open>global\<close>
  statement, and the function returns \<open>None\<close>.
\<close>

definition model :: "library \<Rightarrow> config \<Rightarrow> param_grid \<Rightarrow> nat list \<Rightarrow> frame \<Rightarrow> unit run" where
  "model lib c grid_spec permutation df =
     and_then (evaluate (column df ''target'')) (\<lambda>Y.
     and_then (returns (drop_column df ''target'')) (\<lambda>X.
     and_then (call (Train_test_split (split_size c))
                 (train_test_split permutation X Y (split_size c)))
       (\<lambda>(X_train, X_test, Y_train, Y_test).
     and_then (call Fit_transform (fit_transform X_train)) (\<lambda>(sc, X_train).
     and_then (call Transform (transform sc X_test)) (\<lambda>X_test.
     and_then (returns \<lparr> random_state = parameter_random_state c,
                         bootstrap = parameter_bootstrap c,
                         n_jobs = parameter_n_jobs c \<rparr>) (\<lambda>rf.
     and_then (emit (New_forest rf)) (\<lambda>_.
     and_then (call (New_search grid_spec (parameter_cross_validation c))
                 (GridSearchCV_init lib rf grid_spec (parameter_cross_validation c))) (\<lambda>_.
     and_then (call (Search_fit X_train Y_train (parameter_cross_validation c))
                 (GridSearchCV_fit lib rf grid_spec (parameter_cross_validation c)
                    X_train Y_train)) (\<lambda>grid.
     and_then (call (Predict X_test) (Inr (predict grid X_test))) (\<lambda>Y_pred_test.
     and_then (evaluate (accuracy_score Y_test Y_pred_test)) (\<lambda>acc.
     and_then (emit (Shown_accuracy acc)) (\<lambda>_.
     and_then (emit (Shown_best (best_params grid) (best_score grid))) (\<lambda>_.
     and_then (evaluate (surface (cv_results grid))) (\<lambda>(x, y, z).
     emit (Shown_surface x y z)))))))))))))))"

subsection \<open>The module and the Build Model button (lines 119 to 142)\<close>

text \<open>The kinds of values bound to module-level names.\<close>

datatype pyval =
    PyObject
  | PyInt int
  | PyInts "int list"
  | PyPair int int
  | PyStr string
  | PyStrs "string list"
  | PyBool bool
  | PyDict param_grid
  | PyFrame frame
  | PySeries "real list"
  | PyArray matrix
  | PySearch fitted_search

text \<open>
  The names bound at module level when line 126 is reached: the imports, the data
  frame, the widget values, the grid, the function \<open>model\<close> and \<open>dataset\<close>. The call
  \<open>model(dataset)\<close> binds none.
\<close>

definition module_globals :: "config \<Rightarrow> param_grid \<Rightarrow> frame \<Rightarrow> frame \<Rightarrow> (string \<times> pyval) list" where
  "module_globals c grid_spec df dataset =
     [(''st'', PyObject), (''np'', PyObject), (''pd'', PyObject),
      (''RandomForestClassifier'', PyObject), (''train_test_split'', PyObject),
      (''StandardScaler'', PyObject), (''cross_val_score'', PyObject),
      (''GridSearchCV'', PyObject), (''accuracy_score'', PyObject),
      (''classification_report'', PyObject), (''plot_confusion_matrix'', PyObject),
      (''go'', PyObject),
      (''df'', PyFrame df),
      (''split_size'', PyInt (split_size c)),
      (''parameter_n_estimators'',
         PyPair (fst (parameter_n_estimators c)) (snd (parameter_n_estimators c))),
      (''parameter_n_estimators_step'', PyInt (parameter_n_estimators_step c)),
      (''parameter_max_features'', PyStrs (parameter_max_features c)),
      (''parameter_max_depth'',
         PyPair (fst (parameter_max_depth c)) (snd (parameter_max_depth c))),
      (''parameter_max_depth_step'', PyInt (parameter_max_depth_step c)),
      (''parameter_criterion'', PyStr (parameter_criterion c)),
      (''parameter_cross_validation'', PyInt (parameter_cross_validation c)),
      (''parameter_random_state'', PyInt (parameter_random_state c)),
      (''parameter_bootstrap'', PyBool (parameter_bootstrap c)),
      (''parameter_n_jobs'', PyInt (parameter_n_jobs c)),
      (''n_estimators_range'', PyInts (n_estimators grid_spec)),
      (''max_depth_range'', PyInts (max_depth grid_spec)),
      (''param_grid'', PyDict grid_spec),
      (''model'', PyObject),
      (''dataset'', PyFrame dataset)]"

text \<open>Reading a name at module level; none of the names read is a builtin.\<close>

definition name :: "(string \<times> pyval) list \<Rightarrow> string \<Rightarrow> error + pyval" where
  "name globals n = (case map_of globals n of None \<Rightarrow> Inl (NameError n) | Some v \<Rightarrow> Inr v)"

definition as_series :: "pyval \<Rightarrow> error + real list" where
  "as_series v = (case v of PySeries ys \<Rightarrow> Inr ys | _ \<Rightarrow> Inl TypeError)"

definition as_array :: "pyval \<Rightarrow> error + matrix" where
  "as_array v = (case v of PyArray X \<Rightarrow> Inr X | _ \<Rightarrow> Inl TypeError)"

definition as_search :: "pyval \<Rightarrow> error + fitted_search" where
  "as_search v = (case v of PySearch g \<Rightarrow> Inr g | _ \<Rightarrow> Inl TypeError)"

text \<open>
  Lines 124 to 141, run after \<open>model(dataset)\<close> has returned: the arguments of a call
  are evaluated from left to right before the call is made.
\<close>

definition report_step :: "(string \<times> pyval) list \<Rightarrow> unit run" where
  "report_step globals =
     and_then (evaluate (name globals ''Y_test'')) (\<lambda>y_test.
     and_then (evaluate (name globals ''Y_pred_test'')) (\<lambda>y_pred_test.
     and_then (evaluate (as_series y_test)) (\<lambda>yt.
     and_then (evaluate (as_series y_pred_test)) (\<lambda>yp.
     and_then (evaluate (classification_report yt yp [0, 1])) (\<lambda>clf.
     and_then (emit (Shown_report clf)) (\<lambda>_.
     and_then (evaluate (name globals ''grid'')) (\<lambda>grid.
     and_then (evaluate (name globals ''X_test'')) (\<lambda>x_test.
     and_then (evaluate (name globals ''Y_test'')) (\<lambda>y_test.
     and_then (evaluate (as_search grid)) (\<lambda>g.
     and_then (evaluate (as_array x_test)) (\<lambda>xt.
     and_then (evaluate (as_series y_test)) (\<lambda>yt.
     and_then (call (Predict xt) (Inr (predict g xt))) (\<lambda>y_pred.
     and_then (evaluate (confusion_matrix yt y_pred)) (\<lambda>cm.
     emit (Shown_confusion cm)))))))))))))))"

text \<open>
  One execution of the script: Streamlit runs the module from the top; \<open>clicked\<close> is
  what \<open>st.button('Build Model')\<close> returns.
\<close>

definition script :: "library \<Rightarrow> config \<Rightarrow> nat list \<Rightarrow> frame \<Rightarrow> bool \<Rightarrow> unit run" where
  "script lib c permutation df clicked =
     and_then (evaluate (make_param_grid c)) (\<lambda>grid_spec.
     if clicked
     then and_then (call Get_dummies (get_dummies lib df)) (\<lambda>dataset.
          and_then (model lib c grid_spec permutation dataset) (\<lambda>_.
          report_step (module_globals c grid_spec df dataset)))
     else returns ())"

subsection \<open>Configurations used as examples\<close>

text \<open>The defaults with the step of \<open>max_depth\<close> set to 2.\<close>

definition depth_step_two :: config where
  "depth_step_two = default_config \<lparr> parameter_max_depth_step := 2 \<rparr>"

text \<open>The whole depth slider, 5 to 15, with step 3.\<close>

definition depth_step_three :: config where
  "depth_step_three =
     default_config \<lparr> parameter_max_depth := (5, 15), parameter_max_depth_step := 3 \<rparr>"

subsection \<open>Standardization as the specification words it\<close>

text \<open>
  The glossary of the specification: features are rescaled to zero mean and unit
  variance with statistics learned from the training partition only. Written out,
  without the functions of the scaler above: the average and the standard deviation
  of a feature, and every value of \<open>X\<close> minus the average of its feature in the
  reference partition, divided by the deviation of that feature there (by 1 when the
  feature is constant there).
\<close>

definition average :: "real list \<Rightarrow> real" where
  "average xs = sum_list xs / real (length xs)"

definition deviation :: "real list \<Rightarrow> real" where
  "deviation xs = sqrt (sum_list (map (\<lambda>x. (x - average xs)\<^sup>2) xs) / real (length xs))"

definition unit_or_deviation :: "real list \<Rightarrow> real" where
  "unit_or_deviation xs = (if deviation xs = 0 then 1 else deviation xs)"

definition standardized_by :: "matrix \<Rightarrow> matrix \<Rightarrow> matrix" where
  "standardized_by reference X =
     map (\<lambda>(col, r). map (\<lambda>x. (x - average r) / unit_or_deviation r) col) (zip X reference)"

subsection \<open>A stand-in for the libraries\<close>

text \<open>
  To run the script on examples, the library parameter is given a value that does
  what pandas and scikit-learn 1.1 do on those examples.

  \<open>get_dummies\<close> raises \<open>KeyError\<close> when one of the eight columns of line 121 is
  missing; otherwise it keeps the other columns and appends, for each of the eight in
  turn, one 0/1 column per distinct value, in ascending order. The category codes of
  the data are the digits 0 to 4.
\<close>

definition encoded_columns :: "string list" where
  "encoded_columns =
     [''sex'', ''cp'', ''fbs'', ''restecg'', ''exang'', ''slope'', ''ca'', ''thal'']"

definition code_label :: "real \<Rightarrow> string" where
  "code_label v =
     (if v = 0 then ''0'' else if v = 1 then ''1'' else if v = 2 then ''2''
      else if v = 3 then ''3'' else ''4'')"

definition indicator_columns :: "string \<Rightarrow> real list \<Rightarrow> frame" where
  "indicator_columns c col =
     map (\<lambda>v. (c @ ''_'' @ code_label v, map (\<lambda>x. if x = v then 1 else 0) col))
         (sort (remdups col))"

definition one_hot :: "frame \<Rightarrow> error + frame" where
  "one_hot df =
     (case filter (\<lambda>c. map_of df c = None) encoded_columns of
        c # _ \<Rightarrow> Inl (KeyError c)
      | [] \<Rightarrow>
          Inr (filter (\<lambda>(n, col). n \<notin> set encoded_columns) df @
               concat (map (\<lambda>c. case map_of df c of
                                   None \<Rightarrow> []
                                 | Some col \<Rightarrow> indicator_columns c col)
                           encoded_columns)))"

text \<open>
  The grid points in the order in which \<open>GridSearchCV\<close> evaluates them: the keys in
  alphabetical order, the last one running fastest.
\<close>

definition grid_points :: "param_grid \<Rightarrow> candidate list" where
  "grid_points g =
     concat (map (\<lambda>d. concat (map (\<lambda>f. map (\<lambda>n.
        \<lparr> cand_max_depth = d, cand_max_features = f, cand_n_estimators = n \<rparr>)
        (n_estimators g)) (max_features g))) (max_depth g))"

text \<open>
  The constructor of \<open>GridSearchCV\<close> accepts every grid. \<open>fit\<close> raises \<open>ValueError\<close>
  for a grid with an empty dimension, and when every class of the training labels
  has fewer members than there are folds (which includes more folds than rows).
  Otherwise, for training labels of one class, which is all the examples use, every
  forest predicts that class: every fold of every grid point scores 1, the best grid
  point is the first, and every row is predicted that class. For training labels of
  several classes the scores of a forest depend on the data and are not reproduced.
\<close>

definition stub_library :: library where
  "stub_library =
     \<lparr> get_dummies = one_hot,
       GridSearchCV_init = (\<lambda>rf g cv. Inr ()),
       GridSearchCV_fit = (\<lambda>rf g cv X Y.
          if max_features g = [] \<or> n_estimators g = [] \<or> max_depth g = []
          then Inl ValueError
          else if list_all (\<lambda>l. int (count_list Y l) < cv) (remdups Y) then Inl ValueError
          else Inr \<lparr> cv_results = map (\<lambda>p. (p, 1)) (grid_points g),
                     best_params = hd (grid_points g),
                     best_score = 1,
                     predict = (\<lambda>X. case X of [] \<Rightarrow> [] | col # _ \<Rightarrow> map (\<lambda>_. hd Y) col) \<rparr>) \<rparr>"

text \<open>
  A data set of 52 rows with the columns of line 121: \<open>age\<close> is 1 and the eight
  categorical columns are 0 in every row; the first row has class 1, the others class
  0. Its encoding has the columns \<open>age\<close> and \<open>target\<close> and eight indicator
  columns that are 1 in every row. Two shuffles of the rows: the identity and the
  reversal.
\<close>

definition small_frame :: frame where
  "small_frame =
     [(''age'', replicate 52 1),
      (''sex'', replicate 52 0), (''cp'', replicate 52 0), (''fbs'', replicate 52 0),
      (''restecg'', replicate 52 0), (''exang'', replicate 52 0),
      (''slope'', replicate 52 0), (''ca'', replicate 52 0), (''thal'', replicate 52 0),
      (''target'', 1 # replicate 51 0)]"

definition small_dataset :: frame where
  "small_dataset =
     [(''age'', replicate 52 1), (''target'', 1 # replicate 51 0),
      (''sex_0'', replicate 52 1), (''cp_0'', replicate 52 1), (''fbs_0'', replicate 52 1),
      (''restecg_0'', replicate 52 1), (''exang_0'', replicate 52 1),
      (''slope_0'', replicate 52 1), (''ca_0'', replicate 52 1),
      (''thal_0'', replicate 52 1)]"

definition identity_shuffle :: "nat list" where
  "identity_shuffle = [0 ..< 52]"

definition reversed_shuffle :: "nat list" where
  "reversed_shuffle = rev [0 ..< 52]"

text \<open>The first grid point of the default grid.\<close>

definition first_candidate :: candidate where
  "first_candidate =
     \<lparr> cand_max_depth = 5, cand_max_features = ''auto'', cand_n_estimators = 10 \<rparr>"

text \<open>The defaults with 50 as split size; the same with ten folds or no feature rule.\<close>

definition split_fifty :: config where
  "split_fifty = default_config \<lparr> split_size := 50 \<rparr>"

definition ten_folds :: config where
  "ten_folds = split_fifty \<lparr> parameter_cross_validation := 10 \<rparr>"

definition no_max_features :: config where
  "no_max_features = split_fifty \<lparr> parameter_max_features := [] \<rparr>"

text \<open>The grid of \<open>split_fifty\<close>, and the one of \<open>no_max_features\<close>.\<close>

definition small_grid :: param_grid where
  "small_grid =
     \<lparr> max_features = [''auto''], n_estimators = [10, 20, 30, 40, 50],
       max_depth = [5, 6, 7, 8] \<rparr>"

definition empty_grid :: param_grid where
  "empty_grid = small_grid \<lparr> max_features := [] \<rparr>"

subsection \<open>Kinds of events\<close>

text \<open>The two results of the evaluator that follow \<open>model(dataset)\<close>.\<close>

definition metric_event :: "event \<Rightarrow> bool" where
  "metric_event ev =
     (case ev of Shown_report r \<Rightarrow> True | Shown_confusion cm \<Rightarrow> True | _ \<Rightarrow> False)"

text \<open>The computations of the model search: splitting, scaling, fitting, predicting.\<close>

definition computation :: "event \<Rightarrow> bool" where
  "computation ev =
     (case ev of
        Train_test_split n \<Rightarrow> True
      | Fit_transform \<Rightarrow> True
      | Transform \<Rightarrow> True
      | Search_fit X Y cv \<Rightarrow> True
      | Predict X \<Rightarrow> True
      | _ \<Rightarrow> False)"

definition search_call :: "event \<Rightarrow> bool" where
  "search_call ev = (case ev of Search_fit X Y cv \<Rightarrow> True | _ \<Rightarrow> False)"

text \<open>
  A run that is rejected before any computation, and a run that fails before the
  search is called, as sections 4.1, 4.2 and 7 of the specification ask.
\<close>

definition rejected_before_computation :: "unit run \<Rightarrow> bool" where
  "rejected_before_computation r \<longleftrightarrow> isl (snd r) \<and> \<not> list_ex computation (fst r)"

definition failed_before_search_call :: "unit run \<Rightarrow> bool" where
  "failed_before_search_call r \<longleftrightarrow> isl (snd r) \<and> \<not> list_ex search_call (fst r)"

text \<open>
  What the search and the predictions are given when the features were standardized
  with the statistics of the training partition.
\<close>

definition scaled_inputs :: "matrix \<Rightarrow> matrix \<Rightarrow> event \<Rightarrow> bool" where
  "scaled_inputs X_train X_test ev =
     (case ev of
        Search_fit X Y cv \<Rightarrow> X = standardized_by X_train X_train
      | Predict X \<Rightarrow> X = standardized_by X_train X_test
      | _ \<Rightarrow> True)"

text \<open>
  A score table that is not rectangular: depth 5 was scored with 10 estimators only,
  for two feature rules, and depth 7 with 20 estimators only.
\<close>

definition ragged_table :: "(candidate \<times> real) list" where
  "ragged_table =
     [(\<lparr> cand_max_depth = 5, cand_max_features = ''auto'', cand_n_estimators = 10 \<rparr>, 4 / 5),
      (\<lparr> cand_max_depth = 7, cand_max_features = ''auto'', cand_n_estimators = 20 \<rparr>, 9 / 10),
      (\<lparr> cand_max_depth = 5, cand_max_features = ''sqrt'', cand_n_estimators = 10 \<rparr>, 3 / 5)]"

section \<open>Properties\<close>

subsection \<open>Grid construction\<close>

lemma arange_len_incl:
  assumes "lo \<le> hi" "0 < step"
  shows "arange_len lo (hi + step) step = Suc (nat (- ((lo - hi) div step)))"
proof -
  have "(lo - hi + (- 1) * step) div step = - 1 + (lo - hi) div step"
    using assms(2) by (intro div_mult_self1) simp
  then have "(lo - (hi + step)) div step = (lo - hi) div step + (- 1)"
    by (simp add: algebra_simps)
  moreover have "(lo - hi) div step \<le> 0"
    using assms by (intro div_nonpos_pos_le0) simp_all
  ultimately show ?thesis by (simp add: arange_len_def)
qed

lemma ceil_last:
  fixes lo hi step :: int
  shows "lo + (- ((lo - hi) div step)) * step = hi + (lo - hi) mod step"
proof -
  have "(lo - hi) div step * step + (lo - hi) mod step = lo - hi" by simp
  then show ?thesis by (simp add: algebra_simps)
qed

lemma arange_incl:
  assumes "lo \<le> hi" "0 < step"
  shows "arange lo (hi + step) step = Inr (map (\<lambda>i. lo + int i * step) [0 ..< Suc (nat (- ((lo - hi) div step)))])"
  using assms by (simp add: arange_def arange_len_incl del: upt_Suc)

lemma Min_affine:
  assumes "0 < (step::int)"
  shows "Min (set (map (\<lambda>i. lo + int i * step) [0 ..< Suc k])) = lo"
proof (rule Min_eqI)
  show "finite (set (map (\<lambda>i. lo + int i * step) [0 ..< Suc k]))" by simp
  show "\<And>y. y \<in> set (map (\<lambda>i. lo + int i * step) [0 ..< Suc k]) \<Longrightarrow> lo \<le> y"
    using assms unfolding set_map set_upt by (auto)
  show "lo \<in> set (map (\<lambda>i. lo + int i * step) [0 ..< Suc k])"
    unfolding set_map set_upt by (rule image_eqI [where x = 0]) simp_all
qed

lemma Max_affine:
  assumes "0 < (step::int)"
  shows "Max (set (map (\<lambda>i. lo + int i * step) [0 ..< Suc k])) = lo + int k * step"
proof (rule Max_eqI)
  show "finite (set (map (\<lambda>i. lo + int i * step) [0 ..< Suc k]))" by simp
  show "\<And>y. y \<in> set (map (\<lambda>i. lo + int i * step) [0 ..< Suc k]) \<Longrightarrow> y \<le> lo + int k * step"
    using assms unfolding set_map set_upt by (auto simp: less_Suc_eq_le)
  show "lo + int k * step \<in> set (map (\<lambda>i. lo + int i * step) [0 ..< Suc k])"
    unfolding set_map set_upt by (rule image_eqI [where x = k]) simp_all
qed

lemma spaced_affine: "spaced step (map (\<lambda>i. lo + int i * step) [0 ..< n])"
  by (simp add: spaced_def algebra_simps)


lemma arange_reaches_range:
  assumes "lo \<le> hi" "0 < step"
  shows "\<exists>xs. arange lo (hi + step) step = Inr xs \<and> reaches_range lo hi step xs"
proof -
  define k where "k = nat (- ((lo - hi) div step))"
  define xs where "xs = map (\<lambda>i. lo + int i * step) [0 ..< Suc k]"
  have "(lo - hi) div step \<le> 0"
    using assms by (intro div_nonpos_pos_le0) simp_all
  then have k: "int k = - ((lo - hi) div step)" by (simp add: k_def)
  have mx: "Max (set xs) = hi + (lo - hi) mod step"
    unfolding xs_def using Max_affine [OF assms(2), of lo k] ceil_last [of lo hi step] k
    by simp
  have m0: "0 \<le> (lo - hi) mod step" and m1: "(lo - hi) mod step < step"
    using assms(2) by simp_all
  have dv: "(lo - hi) mod step = 0 \<longleftrightarrow> step dvd (hi - lo)"
    by (metis dvd_minus_iff minus_diff_eq mod_eq_0_iff_dvd)
  have "arange lo (hi + step) step = Inr xs"
    using arange_incl [OF assms] by (simp add: xs_def k_def)
  moreover have "xs \<noteq> []" by (simp add: xs_def)
  moreover have "Min (set xs) = lo" unfolding xs_def by (rule Min_affine [OF assms(2)])
  moreover have "spaced step xs" unfolding xs_def by (rule spaced_affine)
  ultimately show ?thesis
    unfolding reaches_range_def using mx m0 m1 dv by auto
qed

text \<open>
  What lines 44 to 46 compute for a range with \<open>min \<le> max\<close> and a positive step: the
  two numeric dimensions are not empty, start at \<open>min\<close>, have consecutive elements
  exactly one step apart, and end at the first such value that is at least \<open>max\<close>.
\<close>

lemma param_grid_reaches_ranges:
  assumes "fst (parameter_n_estimators c) \<le> snd (parameter_n_estimators c)"
    and "0 < parameter_n_estimators_step c"
    and "fst (parameter_max_depth c) \<le> snd (parameter_max_depth c)"
    and "0 < parameter_max_depth_step c"
  shows "\<exists>g. make_param_grid c = Inr g \<and>
           max_features g = parameter_max_features c \<and>
           reaches_range (fst (parameter_n_estimators c)) (snd (parameter_n_estimators c))
             (parameter_n_estimators_step c) (n_estimators g) \<and>
           reaches_range (fst (parameter_max_depth c)) (snd (parameter_max_depth c))
             (parameter_max_depth_step c) (max_depth g)"
proof -
  obtain ns where ns: "n_estimators_range c = Inr ns"
      "reaches_range (fst (parameter_n_estimators c)) (snd (parameter_n_estimators c))
         (parameter_n_estimators_step c) ns"
    using arange_reaches_range [OF assms(1,2)] unfolding n_estimators_range_def by blast
  obtain ds where ds: "max_depth_range c = Inr ds"
      "reaches_range (fst (parameter_max_depth c)) (snd (parameter_max_depth c))
         (parameter_max_depth_step c) ds"
    using arange_reaches_range [OF assms(3,4)] unfolding max_depth_range_def by blast
  show ?thesis using ns ds by (simp add: make_param_grid_def)
qed


lemma depth_step_two_grid:
  "make_param_grid depth_step_two =
     Inr \<lparr> max_features = [''auto''], n_estimators = [10, 20, 30, 40, 50], max_depth = [5, 7, 9] \<rparr>"
  by (simp add: make_param_grid_def n_estimators_range_def max_depth_range_def arange_def
      arange_len_def depth_step_two_def default_config_def upt_rec)

lemma default_ranges_reached:
  "fst (parameter_n_estimators depth_step_two) \<le> snd (parameter_n_estimators depth_step_two) \<and>
   0 < parameter_n_estimators_step depth_step_two \<and>
   fst (parameter_max_depth depth_step_two) \<le> snd (parameter_max_depth depth_step_two) \<and>
   0 < parameter_max_depth_step depth_step_two \<and>
   reaches_range 10 50 10 [10, 20, 30, 40, 50] \<and> reaches_range 5 8 2 [5, 7, 9]"
  using param_grid_reaches_ranges [of depth_step_two] depth_step_two_grid
  by (simp add: depth_step_two_def default_config_def)

lemma depth_step_three_range: "max_depth_range depth_step_three = Inr [5, 8, 11, 14, 17]"
  by (simp add: max_depth_range_def arange_def arange_len_def depth_step_three_def
      default_config_def upt_rec)

text \<open>
  Claim C4, on the code. The stop value \<open>max + step\<close> of lines 44 and 45 lets the range
  run past the chosen maximum when the step does not divide \<open>max - min\<close>: the default
  depth range \<open>(5, 8)\<close> with step 2 gives \<open>[5, 7, 9]\<close>, and the whole slider \<open>(5, 15)\<close>
  with step 3 gives \<open>[5, 8, 11, 14, 17]\<close>, above the largest depth the slider offers. In
  neither case is the maximum of the candidates at most the chosen maximum.
\<close>

theorem max_depth_range_exceeds_maximum:
  "max_depth_range depth_step_two = Inr [5, 7, 9] \<and>
   \<not> within_range (fst (parameter_max_depth depth_step_two))
        (snd (parameter_max_depth depth_step_two))
        (parameter_max_depth_step depth_step_two) [5, 7, 9] \<and>
   max_depth_range depth_step_three = Inr [5, 8, 11, 14, 17] \<and>
   snd (parameter_max_depth depth_step_three) = 15 \<and>
   \<not> within_range (fst (parameter_max_depth depth_step_three))
        (snd (parameter_max_depth depth_step_three))
        (parameter_max_depth_step depth_step_three) [5, 8, 11, 14, 17]"
  by (simp add: depth_step_three_range)
    (simp add: max_depth_range_def arange_def arange_len_def depth_step_two_def
      depth_step_three_def default_config_def upt_rec within_range_def)

subsection \<open>Runs\<close>

lemma prefixed_pair [simp]: "prefixed t (u, r) = (t @ u, r)"
  by (simp add: prefixed_def)

lemma fst_prefixed [simp]: "fst (prefixed t r) = t @ fst r"
  by (simp add: prefixed_def)

lemma snd_prefixed [simp]: "snd (prefixed t r) = snd r"
  by (simp add: prefixed_def)

lemma prefixed_Nil [simp]: "prefixed [] r = r"
  by (simp add: prefixed_def)

lemma prefixed_prefixed [simp]: "prefixed t (prefixed u r) = prefixed (t @ u) r"
  by (simp add: prefixed_def)

lemma and_then_evaluate_Inr [simp]: "and_then (evaluate (Inr a)) f = f a"
  by (simp add: and_then_def evaluate_def)

lemma and_then_evaluate_Inl [simp]: "and_then (evaluate (Inl e)) f = ([], Inl e)"
  by (simp add: and_then_def evaluate_def)

lemma and_then_returns [simp]: "and_then (returns a) f = f a"
  by (simp add: and_then_def returns_def)

lemma and_then_call_Inr [simp]: "and_then (call ev (Inr a)) f = prefixed [ev] (f a)"
  by (simp add: and_then_def call_def)

lemma and_then_call_Inl [simp]: "and_then (call ev (Inl e)) f = ([ev], Inl e)"
  by (simp add: and_then_def call_def)

lemma and_then_emit [simp]: "and_then (emit ev) f = prefixed [ev] (f ())"
  by (simp add: and_then_def emit_def)

lemma prefixed_emit [simp]: "prefixed t (emit ev) = (t @ [ev], Inr ())"
  by (simp add: emit_def)

lemma and_then_failed: "snd m = Inl e \<Longrightarrow> and_then m f = (fst m, Inl e)"
  by (simp add: and_then_def)

lemma and_then_passed: "snd m = Inr a \<Longrightarrow> and_then m f = prefixed (fst m) (f a)"
  by (simp add: and_then_def)

lemma and_then_prefixed [simp]: "and_then (prefixed t m) f = prefixed t (and_then m f)"
  by (cases "snd m") (simp_all add: and_then_def prefixed_def)

lemma and_then_pair_Inl [simp]: "and_then (t, Inl e) f = (t, Inl e)"
  by (simp add: and_then_def)

lemma and_then_pair_Inr [simp]: "and_then (t, Inr a) f = prefixed t (f a)"
  by (simp add: and_then_def)

lemma and_then_assoc: "and_then (and_then m f) h = and_then m (\<lambda>a. and_then (f a) h)"
proof (cases "snd m")
  case (Inl e)
  then show ?thesis by (simp add: and_then_failed)
next
  case (Inr a)
  then show ?thesis by (simp add: and_then_passed)
qed

text \<open>A property of every event of a run is kept by sequencing.\<close>

lemma events_and_then:
  assumes "list_all P (fst m)" and "\<And>a. list_all P (fst (f a))"
  shows "list_all P (fst (and_then m f))"
  using assms by (cases "snd m") (simp_all add: and_then_def)

lemma events_evaluate: "list_all P (fst (evaluate r))"
  by (simp add: evaluate_def)

lemma events_returns: "list_all P (fst (returns a))"
  by (simp add: returns_def)

lemma events_call: "P ev \<Longrightarrow> list_all P (fst (call ev r))"
  by (simp add: call_def)

lemma events_emit: "P ev \<Longrightarrow> list_all P (fst (emit ev))"
  by (simp add: emit_def)

lemma events_case_prod:
  "(\<And>a b. list_all P (fst (f a b))) \<Longrightarrow> list_all P (fst (case_prod f x))"
  by (cases x) simp

subsection \<open>The report step\<close>

lemma Y_test_unbound: "name (module_globals c g df dataset) ''Y_test'' = Inl (NameError ''Y_test'')"
  by (simp add: name_def module_globals_def)

lemma report_step_raises:
  "report_step (module_globals c g df dataset) = ([], Inl (NameError ''Y_test''))"
  by (simp add: report_step_def Y_test_unbound)


lemma model_events: "list_all (\<lambda>ev. \<not> metric_event ev) (fst (model lib c g permutation df))"
  unfolding model_def
  by (intro events_and_then events_evaluate events_returns events_call events_emit
      events_case_prod) (simp_all add: metric_event_def)

lemma script_events: "list_all (\<lambda>ev. \<not> metric_event ev) (fst (script lib c permutation df clicked))"
  unfolding script_def
  apply (intro events_and_then events_evaluate)
  apply (simp add: events_returns)
  apply (intro impI events_and_then events_call model_events)
   apply (simp_all add: metric_event_def report_step_raises)
  done


subsection \<open>The example run\<close>

lemma split_fifty_grid: "make_param_grid split_fifty = Inr small_grid"
  by (simp add: make_param_grid_def n_estimators_range_def max_depth_range_def arange_def
      arange_len_def split_fifty_def default_config_def upt_rec small_grid_def)

lemma ten_folds_grid: "make_param_grid ten_folds = Inr small_grid"
  by (simp add: make_param_grid_def n_estimators_range_def max_depth_range_def arange_def
      arange_len_def ten_folds_def split_fifty_def default_config_def upt_rec small_grid_def)

lemma no_max_features_grid: "make_param_grid no_max_features = Inr empty_grid"
  by (simp add: make_param_grid_def n_estimators_range_def max_depth_range_def arange_def
      arange_len_def no_max_features_def split_fifty_def default_config_def upt_rec
      small_grid_def empty_grid_def)

lemma one_hot_small_frame: "one_hot small_frame = Inr small_dataset"
  by code_simp

lemma stub_get_dummies: "get_dummies stub_library small_frame = Inr small_dataset"
  by (simp add: stub_library_def one_hot_small_frame)

lemma small_frame_target: "column small_dataset ''target'' = Inr (1 # replicate 51 0)"
  by (simp add: column_def small_dataset_def)

lemma small_frame_features: "drop_column small_dataset ''target'' = replicate 9 (replicate 52 1)"
  by code_simp

lemma split_identity:
  "train_test_split identity_shuffle (replicate 9 (replicate 52 1)) (1 # replicate 51 0) 50 =
     Inr (replicate 9 [1, 1], replicate 9 (replicate 50 1), [0, 0], 1 # replicate 49 0)"
  by code_simp

lemma split_reversed:
  "train_test_split reversed_shuffle (replicate 9 (replicate 52 1)) (1 # replicate 51 0) 50 =
     Inr (replicate 9 [1, 1], replicate 9 (replicate 50 1), [0, 1], replicate 50 0)"
  by code_simp

lemma fit_small:
  "fit_transform (replicate 9 [1, 1]) =
     Inr (\<lparr> scaler_mean = replicate 9 1, scaler_scale = replicate 9 1 \<rparr>, replicate 9 [0, 0])"
  by (simp add: fit_transform_def fit_def transform_def check_array_def mean_def var_def
      handle_zeros_in_scale_def standardize_def list_all_iff map_replicate_const)

lemma transform_small:
  "transform \<lparr> scaler_mean = replicate 9 1, scaler_scale = replicate 9 1 \<rparr>
       (replicate 9 (replicate 50 1)) =
     Inr (replicate 9 (replicate 50 0))"
  by (simp add: transform_def check_array_def standardize_def list_all_iff
      map_replicate_const)

lemma accuracy_identity: "accuracy_score (1 # replicate 49 0) (replicate 50 0) = Inr (49 / 50)"
  by code_simp

lemma surface_small:
  "surface (map (\<lambda>p. (p, 1)) (grid_points small_grid)) =
     Inr ([10, 20, 30, 40, 50], [5, 6, 7, 8], replicate 4 (replicate 5 (Some 1)))"
  by code_simp

lemma small_grid_fields:
  "max_features small_grid = [''auto'']" "n_estimators small_grid = [10, 20, 30, 40, 50]"
  "max_depth small_grid = [5, 6, 7, 8]"
  by (simp_all add: small_grid_def)

lemma first_grid_point: "hd (grid_points small_grid) = first_candidate"
  by (simp add: grid_points_def small_grid_def first_candidate_def)

lemma case_replicate:
  "0 < n \<Longrightarrow> (case replicate n c of [] \<Rightarrow> a | col # _ \<Rightarrow> f col) = f c"
  by (cases n) simp_all

lemma stub_init: "GridSearchCV_init stub_library rf g cv = Inr ()"
  by (simp add: stub_library_def)

lemma stub_fit_one_class:
  "GridSearchCV_fit stub_library rf small_grid 2 X [0, 0] =
     Inr \<lparr> cv_results = map (\<lambda>p. (p, 1)) (grid_points small_grid),
           best_params = first_candidate, best_score = 1,
           predict = (\<lambda>X. case X of [] \<Rightarrow> [] | col # _ \<Rightarrow> map (\<lambda>_. 0) col) \<rparr>"
  by (simp add: stub_library_def small_grid_fields first_grid_point)

lemma stub_fit_two_classes: "GridSearchCV_fit stub_library rf small_grid 2 X [0, 1] = Inl ValueError"
  by (simp add: stub_library_def small_grid_fields)

lemma stub_fit_ten_folds: "GridSearchCV_fit stub_library rf small_grid 10 X [0, 0] = Inl ValueError"
  by (simp add: stub_library_def small_grid_fields)

lemma stub_fit_empty_grid: "GridSearchCV_fit stub_library rf empty_grid cv X Y = Inl ValueError"
  by (simp add: stub_library_def empty_grid_def)

lemma split_fifty_values:
  "split_size split_fifty = 50" "parameter_cross_validation split_fifty = 2"
  "parameter_random_state split_fifty = 42" "parameter_bootstrap split_fifty = True"
  "parameter_n_jobs split_fifty = 1"
  by (simp_all add: split_fifty_def default_config_def)

lemmas example_steps =
  small_frame_target small_frame_features split_identity split_reversed fit_small
  transform_small accuracy_identity surface_small split_fifty_values stub_init
  stub_fit_one_class stub_fit_two_classes case_replicate

lemma model_identity:
  "model stub_library split_fifty small_grid identity_shuffle small_dataset =
     ([Train_test_split 50, Fit_transform, Transform,
       New_forest \<lparr> random_state = 42, bootstrap = True, n_jobs = 1 \<rparr>,
       New_search small_grid 2, Search_fit (replicate 9 [0, 0]) [0, 0] 2,
       Predict (replicate 9 (replicate 50 0)),
       Shown_accuracy (49 / 50), Shown_best first_candidate 1,
       Shown_surface [10, 20, 30, 40, 50] [5, 6, 7, 8]
         (replicate 4 (replicate 5 (Some 1)))],
      Inr ())"
  by (simp add: model_def example_steps)

lemma model_reversed:
  "model stub_library split_fifty small_grid reversed_shuffle small_dataset =
     ([Train_test_split 50, Fit_transform, Transform,
       New_forest \<lparr> random_state = 42, bootstrap = True, n_jobs = 1 \<rparr>,
       New_search small_grid 2, Search_fit (replicate 9 [0, 0]) [0, 1] 2],
      Inl ValueError)"
  by (simp add: model_def example_steps)

subsection \<open>Data splitting\<close>

lemma list_all_take_drop:
  assumes "list_all P xs"
  shows "list_all P (take n xs @ take m (drop n xs))"
  using assms by (auto simp: list_all_iff dest: in_set_takeD in_set_dropD)

lemma train_test_split_sizes:
  assumes "0 < test_size" "test_size < int (length Y)"
    and "length permutation = length Y" "list_all (\<lambda>i. i < length Y) permutation"
  shows "\<exists>X_train X_test Y_train Y_test.
           train_test_split permutation X Y test_size = Inr (X_train, X_test, Y_train, Y_test) \<and>
           length Y_train = length Y - nat test_size \<and> length Y_test = nat test_size"
  using assms list_all_take_drop [OF assms(4)]
  by (simp add: train_test_split_def validate_shuffle_split_def take_rows_def Let_def
      min_def)

text \<open>
  Claim C1, on the code. The slider value is passed as \<open>test_size\<close>, and an integer
  \<open>test_size\<close> is a number of rows: with the default 80 and a data set of 300 rows,
  whatever the shuffle, the training partition has 220 rows and the test partition 80,
  not 240 and 60.
\<close>

theorem split_size_is_test_rows:
  assumes "length Y = 300" "length permutation = 300"
    and "list_all (\<lambda>i. i < 300) permutation"
  shows "\<exists>X_train X_test Y_train Y_test.
           train_test_split permutation X Y (split_size default_config) =
             Inr (X_train, X_test, Y_train, Y_test) \<and>
           length Y_train = 220 \<and> length Y_test = 80"
  using train_test_split_sizes [of 80 Y permutation X] assms
  by (simp add: default_config_def)

text \<open>The 300 rows in their original order.\<close>

theorem split_size_is_test_rows_witness:
  "length (replicate 300 (0::real)) = 300 \<and> length [0 ..< 300] = 300 \<and>
   list_all (\<lambda>i. i < 300) [0 ..< 300] \<and>
   (\<exists>X_train X_test Y_train Y_test.
      train_test_split [0 ..< 300] [replicate 300 1] (replicate 300 0)
          (split_size default_config) = Inr (X_train, X_test, Y_train, Y_test) \<and>
      length Y_train = 220 \<and> length Y_test = 80)"
  using split_size_is_test_rows [of "replicate 300 0" "[0 ..< 300]" "[replicate 300 1]"]
  by (simp add: list_all_iff)

lemma script_clicked:
  assumes "make_param_grid c = Inr g" "get_dummies lib df = Inr dataset"
  shows "script lib c permutation df True =
           prefixed [Get_dummies]
             (and_then (model lib c g permutation dataset)
                (\<lambda>_. report_step (module_globals c g df dataset)))"
  using assms by (simp add: script_def)

text \<open>
  Claim C2, on the code. Two clicks on Build Model with the same library, the same
  configuration (seed 42, default grid) and the same data, which differ only in the
  shuffle that line 66 draws without the seed. With the rows in their order the search
  is fitted on two rows of class 0: every grid point scores 1 and the first is
  selected. With the rows reversed it is fitted on one row of each class and
  \<open>grid.fit\<close> raises \<open>ValueError\<close>: the run has no selection and no score table.
\<close>

theorem same_seed_two_shuffles:
  "parameter_random_state split_fifty = 42 \<and>
   script stub_library split_fifty identity_shuffle small_frame True =
     ([Get_dummies, Train_test_split 50, Fit_transform, Transform,
       New_forest \<lparr> random_state = 42, bootstrap = True, n_jobs = 1 \<rparr>,
       New_search small_grid 2, Search_fit (replicate 9 [0, 0]) [0, 0] 2,
       Predict (replicate 9 (replicate 50 0)),
       Shown_accuracy (49 / 50), Shown_best first_candidate 1,
       Shown_surface [10, 20, 30, 40, 50] [5, 6, 7, 8]
         (replicate 4 (replicate 5 (Some 1)))],
      Inl (NameError ''Y_test'')) \<and>
   script stub_library split_fifty reversed_shuffle small_frame True =
     ([Get_dummies, Train_test_split 50, Fit_transform, Transform,
       New_forest \<lparr> random_state = 42, bootstrap = True, n_jobs = 1 \<rparr>,
       New_search small_grid 2, Search_fit (replicate 9 [0, 0]) [0, 1] 2],
      Inl ValueError)"
  by (simp add: split_fifty_values script_clicked [OF split_fifty_grid stub_get_dummies]
      model_identity model_reversed report_step_raises)

subsection \<open>The Build Model button\<close>

lemma script_never_completes: "snd (script lib c permutation df True) \<noteq> Inr ()"
proof (cases "make_param_grid c")
  case (Inl e)
  then show ?thesis by (simp add: script_def)
next
  case g: (Inr g)
  show ?thesis
  proof (cases "get_dummies lib df")
    case (Inl e)
    then show ?thesis using g by (simp add: script_def)
  next
    case (Inr dataset)
    show ?thesis
      by (cases "snd (model lib c g permutation dataset)")
        (simp_all add: script_clicked [OF g Inr] and_then_def report_step_raises)
  qed
qed

text \<open>
  Claim C3, on the code. A click on Build Model never runs to the end, and whenever
  \<open>model(dataset)\<close> returns, what ends the run is the \<open>NameError\<close> for \<open>Y_test\<close> on line
  126: the report step receives nothing of what the evaluation computed.
\<close>

theorem report_reads_unbound_name:
  "snd (script lib c permutation df True) \<noteq> Inr () \<and>
   (\<forall>g dataset. make_param_grid c = Inr g \<longrightarrow> get_dummies lib df = Inr dataset \<longrightarrow>
      snd (model lib c g permutation dataset) = Inr () \<longrightarrow>
      script lib c permutation df True =
        (Get_dummies # fst (model lib c g permutation dataset), Inl (NameError ''Y_test'')))"
  by (simp add: script_never_completes script_clicked and_then_def report_step_raises)

text \<open>A run on which \<open>model(dataset)\<close> returns.\<close>

theorem report_reads_unbound_name_witness:
  "make_param_grid split_fifty = Inr small_grid \<and>
   get_dummies stub_library small_frame = Inr small_dataset \<and>
   snd (model stub_library split_fifty small_grid identity_shuffle small_dataset) = Inr () \<and>
   script stub_library split_fifty identity_shuffle small_frame True =
     (Get_dummies # fst (model stub_library split_fifty small_grid identity_shuffle
         small_dataset),
      Inl (NameError ''Y_test''))"
  using report_reads_unbound_name [of stub_library split_fifty identity_shuffle small_frame]
  by (simp add: split_fifty_grid stub_get_dummies model_identity)

text \<open>
  Claim C8, on the code. No run of the script shows a confusion matrix: line 140 is
  never reached.
\<close>

theorem no_confusion_matrix_shown:
  "Shown_confusion cm \<notin> set (fst (script lib c permutation df clicked))"
  using script_events [of lib c permutation df clicked]
  by (auto simp: list_all_iff metric_event_def)

text \<open>
  Claim C9, on the code. No run of the script shows a classification report, for no
  class, and every click on the button ends in an exception.
\<close>

theorem no_report_shown:
  "Shown_report clf \<notin> set (fst (script lib c permutation df clicked)) \<and>
   snd (script lib c permutation df True) \<noteq> Inr ()"
  using script_events [of lib c permutation df clicked] script_never_completes
  by (auto simp: list_all_iff metric_event_def)

subsection \<open>Configurations the library has to judge\<close>

lemma model_to_search:
  assumes "column dataset ''target'' = Inr Y"
    and "train_test_split permutation (drop_column dataset ''target'') Y (split_size c) =
           Inr (X_train, X_test, Y_train, Y_test)"
    and "fit_transform X_train = Inr (sc, X_train')"
    and "transform sc X_test = Inr X_test'"
  shows "model lib c g permutation dataset =
           prefixed [Train_test_split (split_size c), Fit_transform, Transform,
                     New_forest \<lparr> random_state = parameter_random_state c,
                                  bootstrap = parameter_bootstrap c,
                                  n_jobs = parameter_n_jobs c \<rparr>]
             (and_then (call (New_search g (parameter_cross_validation c))
                 (GridSearchCV_init lib
                    \<lparr> random_state = parameter_random_state c,
                      bootstrap = parameter_bootstrap c, n_jobs = parameter_n_jobs c \<rparr>
                    g (parameter_cross_validation c)))
                (\<lambda>_. and_then (call (Search_fit X_train' Y_train (parameter_cross_validation c))
                   (GridSearchCV_fit lib
                      \<lparr> random_state = parameter_random_state c,
                        bootstrap = parameter_bootstrap c, n_jobs = parameter_n_jobs c \<rparr>
                      g (parameter_cross_validation c) X_train' Y_train))
                  (\<lambda>grid.
     and_then (call (Predict X_test') (Inr (predict grid X_test'))) (\<lambda>Y_pred_test.
     and_then (evaluate (accuracy_score Y_test Y_pred_test)) (\<lambda>acc.
     and_then (emit (Shown_accuracy acc)) (\<lambda>_.
     and_then (emit (Shown_best (best_params grid) (best_score grid))) (\<lambda>_.
     and_then (evaluate (surface (cv_results grid))) (\<lambda>(x, y, z).
     emit (Shown_surface x y z)))))))))"
  using assms by (simp add: model_def)

text \<open>
  Claim C5, as the code has it. The script does not check the selection of
  \<open>max_features\<close> and raises nothing itself. When the selection is empty, \<open>param_grid\<close>
  has an empty dimension; a click on Build Model on which the encoding, the split and
  the standardization succeed computes all three and then hands that grid to the
  constructor of \<open>GridSearchCV\<close>. If the constructor raises, the run ends there with
  the library's exception; if it accepts the grid, \<open>grid.fit\<close> is called with it on the
  standardized training partition, and if that call raises, the run ends with the
  library's exception.
\<close>

theorem empty_max_features_reaches_library:
  assumes "parameter_max_features c = []"
    and "make_param_grid c = Inr g"
    and "get_dummies lib df = Inr dataset"
    and "column dataset ''target'' = Inr Y"
    and "train_test_split permutation (drop_column dataset ''target'') Y (split_size c) =
           Inr (X_train, X_test, Y_train, Y_test)"
    and "fit_transform X_train = Inr (sc, X_train')"
    and "transform sc X_test = Inr X_test'"
    and "rf = \<lparr> random_state = parameter_random_state c,
                 bootstrap = parameter_bootstrap c, n_jobs = parameter_n_jobs c \<rparr>"
  shows "max_features g = [] \<and>
         take 6 (fst (script lib c permutation df True)) =
           [Get_dummies, Train_test_split (split_size c), Fit_transform, Transform,
            New_forest rf, New_search g (parameter_cross_validation c)] \<and>
         (\<forall>e. GridSearchCV_init lib rf g (parameter_cross_validation c) = Inl e \<longrightarrow>
            script lib c permutation df True =
              ([Get_dummies, Train_test_split (split_size c), Fit_transform, Transform,
                New_forest rf, New_search g (parameter_cross_validation c)], Inl e)) \<and>
         (\<forall>e. GridSearchCV_init lib rf g (parameter_cross_validation c) = Inr () \<longrightarrow>
            GridSearchCV_fit lib rf g (parameter_cross_validation c) X_train' Y_train = Inl e
            \<longrightarrow> script lib c permutation df True =
              ([Get_dummies, Train_test_split (split_size c), Fit_transform, Transform,
                New_forest rf, New_search g (parameter_cross_validation c),
                Search_fit X_train' Y_train (parameter_cross_validation c)], Inl e))"
proof -
  have "max_features g = []"
    using assms(1,2) by (auto simp: make_param_grid_def split: sum.splits)
  moreover have "take 6 (fst (script lib c permutation df True)) =
           [Get_dummies, Train_test_split (split_size c), Fit_transform, Transform,
            New_forest rf, New_search g (parameter_cross_validation c)]"
    by (cases "GridSearchCV_init lib rf g (parameter_cross_validation c)")
      (simp_all add: script_clicked [OF assms(2,3)] model_to_search [OF assms(4-7)]
        assms(8) [symmetric] and_then_assoc)
  moreover have "script lib c permutation df True =
              ([Get_dummies, Train_test_split (split_size c), Fit_transform, Transform,
                New_forest rf, New_search g (parameter_cross_validation c)], Inl e)"
    if "GridSearchCV_init lib rf g (parameter_cross_validation c) = Inl e" for e
    using that
    by (simp add: script_clicked [OF assms(2,3)] model_to_search [OF assms(4-7)]
        assms(8) [symmetric] and_then_assoc)
  moreover have "script lib c permutation df True =
              ([Get_dummies, Train_test_split (split_size c), Fit_transform, Transform,
                New_forest rf, New_search g (parameter_cross_validation c),
                Search_fit X_train' Y_train (parameter_cross_validation c)], Inl e)"
    if "GridSearchCV_init lib rf g (parameter_cross_validation c) = Inr ()"
      and "GridSearchCV_fit lib rf g (parameter_cross_validation c) X_train' Y_train = Inl e"
    for e
    using that
    by (simp add: script_clicked [OF assms(2,3)] model_to_search [OF assms(4-7)]
        assms(8) [symmetric] and_then_assoc)
  ultimately show ?thesis by blast
qed

text \<open>
  Claim C6, as the code has it. The script does not compare the number of folds with
  the number of training rows. Whenever the steps before it succeed, \<open>grid.fit\<close> is
  called on the standardized training partition with the fold count of the slider,
  unchanged; if that call raises, the run ends with the library's exception, raised
  during the call.
\<close>

theorem fold_count_reaches_library:
  assumes "make_param_grid c = Inr g"
    and "get_dummies lib df = Inr dataset"
    and "column dataset ''target'' = Inr Y"
    and "train_test_split permutation (drop_column dataset ''target'') Y (split_size c) =
           Inr (X_train, X_test, Y_train, Y_test)"
    and "fit_transform X_train = Inr (sc, X_train')"
    and "transform sc X_test = Inr X_test'"
    and "rf = \<lparr> random_state = parameter_random_state c,
                 bootstrap = parameter_bootstrap c, n_jobs = parameter_n_jobs c \<rparr>"
    and "GridSearchCV_init lib rf g (parameter_cross_validation c) = Inr ()"
  shows "take 7 (fst (script lib c permutation df True)) =
           [Get_dummies, Train_test_split (split_size c), Fit_transform, Transform,
            New_forest rf, New_search g (parameter_cross_validation c),
            Search_fit X_train' Y_train (parameter_cross_validation c)] \<and>
         (\<forall>e. GridSearchCV_fit lib rf g (parameter_cross_validation c) X_train' Y_train = Inl e
            \<longrightarrow> script lib c permutation df True =
              ([Get_dummies, Train_test_split (split_size c), Fit_transform, Transform,
                New_forest rf, New_search g (parameter_cross_validation c),
                Search_fit X_train' Y_train (parameter_cross_validation c)], Inl e))"
proof -
  have "take 7 (fst (script lib c permutation df True)) =
           [Get_dummies, Train_test_split (split_size c), Fit_transform, Transform,
            New_forest rf, New_search g (parameter_cross_validation c),
            Search_fit X_train' Y_train (parameter_cross_validation c)]"
    using assms(8)
    by (cases "GridSearchCV_fit lib rf g (parameter_cross_validation c) X_train' Y_train")
      (simp_all add: script_clicked [OF assms(1,2)] model_to_search [OF assms(3-6)]
        assms(7) [symmetric] and_then_assoc)
  moreover have "script lib c permutation df True =
              ([Get_dummies, Train_test_split (split_size c), Fit_transform, Transform,
                New_forest rf, New_search g (parameter_cross_validation c),
                Search_fit X_train' Y_train (parameter_cross_validation c)], Inl e)"
    if "GridSearchCV_fit lib rf g (parameter_cross_validation c) X_train' Y_train = Inl e" for e
    using that assms(8)
    by (simp add: script_clicked [OF assms(1,2)] model_to_search [OF assms(3-6)]
        assms(7) [symmetric] and_then_assoc)
  ultimately show ?thesis by blast
qed

lemma no_max_features_values:
  "parameter_max_features no_max_features = []" "split_size no_max_features = 50"
  "parameter_cross_validation no_max_features = 2"
  "parameter_random_state no_max_features = 42" "parameter_bootstrap no_max_features = True"
  "parameter_n_jobs no_max_features = 1"
  by (simp_all add: no_max_features_def split_fifty_def default_config_def)

lemma ten_folds_values:
  "split_size ten_folds = 50" "parameter_cross_validation ten_folds = 10"
  "parameter_random_state ten_folds = 42" "parameter_bootstrap ten_folds = True"
  "parameter_n_jobs ten_folds = 1"
  by (simp_all add: ten_folds_def split_fifty_def default_config_def)

text \<open>The defaults with split size 50 and nothing selected, on the 52 rows.\<close>

theorem empty_max_features_reaches_library_witness:
  "parameter_max_features no_max_features = [] \<and>
   make_param_grid no_max_features = Inr empty_grid \<and>
   get_dummies stub_library small_frame = Inr small_dataset \<and>
   column small_dataset ''target'' = Inr (1 # replicate 51 0) \<and>
   train_test_split identity_shuffle (drop_column small_dataset ''target'')
       (1 # replicate 51 0) (split_size no_max_features) =
     Inr (replicate 9 [1, 1], replicate 9 (replicate 50 1), [0, 0], 1 # replicate 49 0) \<and>
   fit_transform (replicate 9 [1, 1]) =
     Inr (\<lparr> scaler_mean = replicate 9 1, scaler_scale = replicate 9 1 \<rparr>,
          replicate 9 [0, 0]) \<and>
   transform \<lparr> scaler_mean = replicate 9 1, scaler_scale = replicate 9 1 \<rparr>
       (replicate 9 (replicate 50 1)) = Inr (replicate 9 (replicate 50 0)) \<and>
   max_features empty_grid = [] \<and>
   GridSearchCV_init stub_library \<lparr> random_state = 42, bootstrap = True, n_jobs = 1 \<rparr>
     empty_grid 2 = Inr () \<and>
   GridSearchCV_fit stub_library \<lparr> random_state = 42, bootstrap = True, n_jobs = 1 \<rparr>
     empty_grid 2 (replicate 9 [0, 0]) [0, 0] = Inl ValueError \<and>
   script stub_library no_max_features identity_shuffle small_frame True =
     ([Get_dummies, Train_test_split 50, Fit_transform, Transform,
       New_forest \<lparr> random_state = 42, bootstrap = True, n_jobs = 1 \<rparr>,
       New_search empty_grid 2, Search_fit (replicate 9 [0, 0]) [0, 0] 2], Inl ValueError)"
  using empty_max_features_reaches_library
    [where c = no_max_features and lib = stub_library and df = small_frame
       and g = empty_grid and dataset = small_dataset and permutation = identity_shuffle
       and Y = "1 # replicate 51 0" and X_train = "replicate 9 [1, 1]"
       and X_test = "replicate 9 (replicate 50 1)" and Y_train = "[0, 0]"
       and Y_test = "1 # replicate 49 0"
       and sc = "\<lparr> scaler_mean = replicate 9 1, scaler_scale = replicate 9 1 \<rparr>"
       and X_train' = "replicate 9 [0, 0]" and X_test' = "replicate 9 (replicate 50 0)"
       and rf = "\<lparr> random_state = 42, bootstrap = True, n_jobs = 1 \<rparr>"]
  by (simp add: no_max_features_values no_max_features_grid stub_get_dummies
      small_frame_target small_frame_features split_identity fit_small transform_small
      stub_init stub_fit_empty_grid)

text \<open>
  With nothing selected, the split and the standardization are computed and the
  search is called before the library rejects the grid: the run is not rejected
  before any computation.
\<close>

theorem empty_max_features_counterexample:
  "parameter_max_features no_max_features = [] \<and>
   script stub_library no_max_features identity_shuffle small_frame True =
     ([Get_dummies, Train_test_split 50, Fit_transform, Transform,
       New_forest \<lparr> random_state = 42, bootstrap = True, n_jobs = 1 \<rparr>,
       New_search empty_grid 2, Search_fit (replicate 9 [0, 0]) [0, 0] 2], Inl ValueError) \<and>
   \<not> rejected_before_computation
       (script stub_library no_max_features identity_shuffle small_frame True)"
proof -
  have run: "script stub_library no_max_features identity_shuffle small_frame True =
     ([Get_dummies, Train_test_split 50, Fit_transform, Transform,
       New_forest \<lparr> random_state = 42, bootstrap = True, n_jobs = 1 \<rparr>,
       New_search empty_grid 2, Search_fit (replicate 9 [0, 0]) [0, 0] 2], Inl ValueError)"
    by (simp add: script_clicked [OF no_max_features_grid stub_get_dummies]
        model_to_search [OF small_frame_target] no_max_features_values
        small_frame_features split_identity fit_small transform_small stub_init
        stub_fit_empty_grid)
  show ?thesis
    unfolding run by (simp add: no_max_features_values rejected_before_computation_def
        computation_def)
qed

text \<open>Ten folds for the two training rows that a split size of 50 leaves of 52.\<close>

theorem fold_count_reaches_library_witness:
  "make_param_grid ten_folds = Inr small_grid \<and>
   get_dummies stub_library small_frame = Inr small_dataset \<and>
   column small_dataset ''target'' = Inr (1 # replicate 51 0) \<and>
   train_test_split identity_shuffle (drop_column small_dataset ''target'')
       (1 # replicate 51 0) (split_size ten_folds) =
     Inr (replicate 9 [1, 1], replicate 9 (replicate 50 1), [0, 0], 1 # replicate 49 0) \<and>
   fit_transform (replicate 9 [1, 1]) =
     Inr (\<lparr> scaler_mean = replicate 9 1, scaler_scale = replicate 9 1 \<rparr>,
          replicate 9 [0, 0]) \<and>
   transform \<lparr> scaler_mean = replicate 9 1, scaler_scale = replicate 9 1 \<rparr>
       (replicate 9 (replicate 50 1)) = Inr (replicate 9 (replicate 50 0)) \<and>
   GridSearchCV_init stub_library \<lparr> random_state = 42, bootstrap = True, n_jobs = 1 \<rparr>
     small_grid (parameter_cross_validation ten_folds) = Inr () \<and>
   script stub_library ten_folds identity_shuffle small_frame True =
     ([Get_dummies, Train_test_split 50, Fit_transform, Transform,
       New_forest \<lparr> random_state = 42, bootstrap = True, n_jobs = 1 \<rparr>,
       New_search small_grid 10, Search_fit (replicate 9 [0, 0]) [0, 0] 10], Inl ValueError)"
  using fold_count_reaches_library
    [where c = ten_folds and lib = stub_library and df = small_frame
       and g = small_grid and dataset = small_dataset and permutation = identity_shuffle
       and Y = "1 # replicate 51 0" and X_train = "replicate 9 [1, 1]"
       and X_test = "replicate 9 (replicate 50 1)" and Y_train = "[0, 0]"
       and Y_test = "1 # replicate 49 0"
       and sc = "\<lparr> scaler_mean = replicate 9 1, scaler_scale = replicate 9 1 \<rparr>"
       and X_train' = "replicate 9 [0, 0]" and X_test' = "replicate 9 (replicate 50 0)"
       and rf = "\<lparr> random_state = 42, bootstrap = True, n_jobs = 1 \<rparr>"]
  by (simp add: ten_folds_values ten_folds_grid stub_get_dummies small_frame_target
      small_frame_features split_identity fit_small transform_small stub_init
      stub_fit_ten_folds)

text \<open>
  With ten folds and two training rows the search is called, and the exception comes
  from that call: the run does not fail before the search call.
\<close>

theorem fold_count_counterexample:
  "int (length [0, 0 :: real]) < parameter_cross_validation ten_folds \<and>
   script stub_library ten_folds identity_shuffle small_frame True =
     ([Get_dummies, Train_test_split 50, Fit_transform, Transform,
       New_forest \<lparr> random_state = 42, bootstrap = True, n_jobs = 1 \<rparr>,
       New_search small_grid 10, Search_fit (replicate 9 [0, 0]) [0, 0] 10], Inl ValueError) \<and>
   \<not> failed_before_search_call
       (script stub_library ten_folds identity_shuffle small_frame True)"
proof -
  have run: "script stub_library ten_folds identity_shuffle small_frame True =
     ([Get_dummies, Train_test_split 50, Fit_transform, Transform,
       New_forest \<lparr> random_state = 42, bootstrap = True, n_jobs = 1 \<rparr>,
       New_search small_grid 10, Search_fit (replicate 9 [0, 0]) [0, 0] 10], Inl ValueError)"
    by (simp add: script_clicked [OF ten_folds_grid stub_get_dummies]
        model_to_search [OF small_frame_target] ten_folds_values small_frame_features
        split_identity fit_small transform_small stub_init stub_fit_ten_folds)
  show ?thesis
    unfolding run by (simp add: ten_folds_values failed_before_search_call_def
        search_call_def)
qed

subsection \<open>Standardization\<close>

text \<open>The scaler computes the statistics of the specification.\<close>

lemma mean_average: "mean xs = average xs"
  by (simp add: mean_def average_def)

lemma mean_is_average: "mean = average"
  by (rule ext) (rule mean_average)

lemma scale_deviation: "handle_zeros_in_scale (sqrt (var xs)) = unit_or_deviation xs"
  by (simp add: handle_zeros_in_scale_def var_def mean_def unit_or_deviation_def
      deviation_def average_def)

lemma zip_statistics:
  "map (\<lambda>(col, m, s). standardize m s col) (zip X' (zip (map f X) (map h X))) =
   map (\<lambda>(col, r). standardize (f r) (h r) col) (zip X' X)"
proof (induction X arbitrary: X')
  case Nil
  then show ?case by simp
next
  case (Cons r X)
  then show ?case by (cases X') simp_all
qed

lemma fit_statistics:
  assumes "fit X = Inr sc"
  shows "sc = \<lparr> scaler_mean = map average X, scaler_scale = map unit_or_deviation X \<rparr>"
  using assms by (auto simp: fit_def mean_is_average scale_deviation split: if_splits)

lemma transform_fitted:
  assumes "fit X = Inr sc" "check_array X'" "length X' = length X"
  shows "transform sc X' = Inr (standardized_by X X')"
proof -
  have sc: "sc = \<lparr> scaler_mean = map mean X,
                     scaler_scale = map (\<lambda>col. handle_zeros_in_scale (sqrt (var col))) X \<rparr>"
    using assms(1) by (simp add: fit_def split: if_splits)
  have "map (\<lambda>(col, m, s). standardize m s col)
          (zip X' (zip (map mean X) (map (\<lambda>col. handle_zeros_in_scale (sqrt (var col))) X))) =
        map (\<lambda>(col, r). standardize (mean r) (handle_zeros_in_scale (sqrt (var r))) col)
          (zip X' X)"
    by (rule zip_statistics)
  also have "\<dots> = standardized_by X X'"
    by (simp add: standardized_by_def standardize_def mean_average scale_deviation)
  finally show ?thesis
    unfolding sc transform_def using assms(2,3) by simp
qed

lemma fit_transform_fitted:
  assumes "check_array X"
  shows "\<exists>sc. fit X = Inr sc \<and> fit_transform X = Inr (sc, standardized_by X X)"
proof -
  obtain sc where sc: "fit X = Inr sc" using assms by (simp add: fit_def)
  then show ?thesis
    using transform_fitted [OF sc assms] by (simp add: fit_transform_def)
qed

text \<open>A feature standardized with its own statistics has average 0 and, unless it is
  constant, deviation 1.\<close>

lemma sum_list_shifted:
  "(\<Sum>x\<leftarrow>col. (x - m) / s) = (sum_list col - real (length col) * m) / (s::real)"
  by (induction col) (simp_all add: algebra_simps diff_divide_distrib add_divide_distrib)

lemma average_standardized:
  assumes "col \<noteq> []"
  shows "average (map (\<lambda>x. (x - average col) / s) col) = 0"
  using assms by (simp add: average_def [of "map _ col"] sum_list_shifted comp_def)
    (simp add: average_def)

lemma sum_list_divide: "(\<Sum>x\<leftarrow>xs. f x / k) = sum_list (map f xs) / (k::real)"
  by (induction xs) (simp_all add: add_divide_distrib)

lemma deviation_standardized:
  assumes "col \<noteq> []" "deviation col \<noteq> 0"
  shows "deviation (map (\<lambda>x. (x - average col) / deviation col) col) = 1"
proof -
  let ?v = "sum_list (map (\<lambda>x. (x - average col)\<^sup>2) col) / real (length col)"
  have v: "0 \<le> ?v"
    by (intro divide_nonneg_nonneg sum_list_nonneg) auto
  have d: "(deviation col)\<^sup>2 = ?v"
    using v by (simp add: deviation_def)
  have "deviation (map (\<lambda>x. (x - average col) / deviation col) col) =
          sqrt ((\<Sum>x\<leftarrow>col. (x - average col)\<^sup>2 / (deviation col)\<^sup>2) / real (length col))"
    unfolding deviation_def [of "map _ col"] average_standardized [OF assms(1)]
    by (simp add: comp_def power_divide)
  also have "\<dots> = sqrt (?v / (deviation col)\<^sup>2)"
    by (simp add: sum_list_divide)
  also have "\<dots> = 1"
    using assms(2) unfolding d [symmetric] by simp
  finally show ?thesis .
qed

lemma standardized_by_itself:
  "standardized_by X X = map (\<lambda>r. map (\<lambda>x. (x - average r) / unit_or_deviation r) r) X"
  by (simp add: standardized_by_def zip_same_conv_map)

lemma standardized_average:
  assumes "check_array X"
  shows "list_all (\<lambda>col. average col = 0) (standardized_by X X)"
  using assms
  by (simp add: standardized_by_itself list_all_iff check_array_def average_standardized)

lemma standardized_deviation:
  assumes "check_array X"
  shows "list_all (\<lambda>(col, r). deviation r = 0 \<or> deviation col = 1)
           (zip (standardized_by X X) X)"
  using assms
  by (auto simp: standardized_by_itself zip_map1 zip_same_conv_map list_all_iff
      check_array_def unit_or_deviation_def deviation_standardized)

text \<open>The partitions of a successful split pass the checks of the scaler.\<close>

lemma validate_shuffle_split_Inr:
  "validate_shuffle_split n test_size = Inr (n_train, n_test) \<longleftrightarrow>
     0 < test_size \<and> test_size < int n \<and> n_train = n - nat test_size \<and> n_test = nat test_size"
  by (auto simp: validate_shuffle_split_def Let_def)

lemma split_partitions:
  assumes "train_test_split permutation X Y test_size = Inr (X_train, X_test, Y_train, Y_test)"
  shows "X_train = map (take_rows (take (length Y - nat test_size) (drop (nat test_size) permutation))) X"
    and "X_test = map (take_rows (take (nat test_size) permutation)) X"
    and "0 < test_size" and "test_size < int (length Y)"
proof -
  have "\<exists>n_train n_test. validate_shuffle_split (length Y) test_size = Inr (n_train, n_test)"
  proof (cases "validate_shuffle_split (length Y) test_size")
    case (Inl e)
    then show ?thesis using assms by (simp add: train_test_split_def)
  next
    case (Inr p)
    then show ?thesis by (cases p) simp
  qed
  then obtain n_train n_test
    where v: "validate_shuffle_split (length Y) test_size = Inr (n_train, n_test)"
    by blast
  note w = v [unfolded validate_shuffle_split_Inr]
  from w show "0 < test_size" and "test_size < int (length Y)" by simp_all
  have "Inr (map (take_rows (take n_train (drop n_test permutation))) X,
             map (take_rows (take n_test permutation)) X,
             take_rows (take n_train (drop n_test permutation)) Y,
             take_rows (take n_test permutation) Y) = Inr (X_train, X_test, Y_train, Y_test)"
    using assms unfolding train_test_split_def v by (simp add: Let_def split: if_splits)
  then show "X_train = map (take_rows (take (length Y - nat test_size) (drop (nat test_size) permutation))) X"
    and "X_test = map (take_rows (take (nat test_size) permutation)) X"
    using w by simp_all
qed

lemma split_check_array:
  assumes "train_test_split permutation X Y test_size = Inr (X_train, X_test, Y_train, Y_test)"
    and "length permutation = length Y" and "X \<noteq> []"
  shows "check_array X_train" and "check_array X_test" and "length X_test = length X_train"
proof -
  note p = split_partitions [OF assms(1)]
  have "take (length Y - nat test_size) (drop (nat test_size) permutation) \<noteq> []"
    using p(3,4) assms(2) by auto
  then show "check_array X_train"
    using assms(3) by (simp add: p(1) check_array_def list_all_iff take_rows_def)
  have "take (nat test_size) permutation \<noteq> []"
    using p(3,4) assms(2) by auto
  then show "check_array X_test"
    using assms(3) by (simp add: p(2) check_array_def list_all_iff take_rows_def)
  show "length X_test = length X_train" by (simp add: p(1,2))
qed

lemma events_prefixed:
  "list_all P t \<Longrightarrow> list_all P (fst r) \<Longrightarrow> list_all P (fst (prefixed t r))"
  by simp

text \<open>
  Claim C7. In every run of \<open>model\<close> in which the split succeeds on a data set with at
  least one feature, with a shuffle of all its rows:
  \<^item> the scaler is fitted by \<open>fit X_train\<close>, and its means and scales are the averages and
    the deviations of the training features;
  \<^item> the training partition becomes \<open>standardized_by X_train X_train\<close>, whose features
    have average 0 and, unless constant, deviation 1, and the test partition becomes
    \<open>standardized_by X_train X_test\<close>: the same statistics, those of the training
    partition, are applied to both;
  \<^item> the run starts with the split, \<open>fit_transform\<close> and \<open>transform\<close>; when the search is
    constructed and fitted, it is fitted on the standardized training partition and
    asked to predict the standardized test partition, and no search or prediction
    of the run is given any other array.
\<close>

theorem standardization_fitted_on_train:
  assumes "column df ''target'' = Inr Y"
    and "length permutation = length Y"
    and "train_test_split permutation (drop_column df ''target'') Y (split_size c) =
           Inr (X_train, X_test, Y_train, Y_test)"
    and "drop_column df ''target'' \<noteq> []"
    and "rf = \<lparr> random_state = parameter_random_state c,
                 bootstrap = parameter_bootstrap c, n_jobs = parameter_n_jobs c \<rparr>"
  shows "(\<exists>sc. fit X_train = Inr sc \<and>
            scaler_mean sc = map average X_train \<and>
            scaler_scale sc = map unit_or_deviation X_train \<and>
            fit_transform X_train = Inr (sc, standardized_by X_train X_train) \<and>
            transform sc X_test = Inr (standardized_by X_train X_test)) \<and>
         list_all (\<lambda>col. average col = 0) (standardized_by X_train X_train) \<and>
         list_all (\<lambda>(col, r). deviation r = 0 \<or> deviation col = 1)
           (zip (standardized_by X_train X_train) X_train) \<and>
         take 3 (fst (model lib c g permutation df)) =
           [Train_test_split (split_size c), Fit_transform, Transform] \<and>
         (\<forall>grid. GridSearchCV_init lib rf g (parameter_cross_validation c) = Inr () \<longrightarrow>
            GridSearchCV_fit lib rf g (parameter_cross_validation c)
              (standardized_by X_train X_train) Y_train = Inr grid \<longrightarrow>
            take 7 (fst (model lib c g permutation df)) =
              [Train_test_split (split_size c), Fit_transform, Transform, New_forest rf,
               New_search g (parameter_cross_validation c),
               Search_fit (standardized_by X_train X_train) Y_train
                 (parameter_cross_validation c),
               Predict (standardized_by X_train X_test)]) \<and>
         list_all (scaled_inputs X_train X_test) (fst (model lib c g permutation df))"
proof -
  note ok = split_check_array [OF assms(3,2,4)]
  obtain sc where sc: "fit X_train = Inr sc"
      "fit_transform X_train = Inr (sc, standardized_by X_train X_train)"
    using fit_transform_fitted [OF ok(1)] by blast
  have tr: "transform sc X_test = Inr (standardized_by X_train X_test)"
    using transform_fitted [OF sc(1) ok(2,3)] .
  note m = model_to_search [OF assms(1,3) sc(2) tr, of lib g, folded assms(5)]
  have stats: "scaler_mean sc = map average X_train"
      "scaler_scale sc = map unit_or_deviation X_train"
    using fit_statistics [OF sc(1)] by simp_all
  have first: "take 3 (fst (model lib c g permutation df)) =
           [Train_test_split (split_size c), Fit_transform, Transform]"
    unfolding m by simp
  have search: "take 7 (fst (model lib c g permutation df)) =
              [Train_test_split (split_size c), Fit_transform, Transform, New_forest rf,
               New_search g (parameter_cross_validation c),
               Search_fit (standardized_by X_train X_train) Y_train
                 (parameter_cross_validation c),
               Predict (standardized_by X_train X_test)]"
    if "GridSearchCV_init lib rf g (parameter_cross_validation c) = Inr ()"
      and "GridSearchCV_fit lib rf g (parameter_cross_validation c)
              (standardized_by X_train X_train) Y_train = Inr grid"
    for grid
    unfolding m using that by simp
  have only: "list_all (scaled_inputs X_train X_test) (fst (model lib c g permutation df))"
    unfolding m
    by (intro events_prefixed events_and_then events_evaluate events_returns events_call
        events_emit events_case_prod) (simp_all add: scaled_inputs_def)
  have "\<exists>sc. fit X_train = Inr sc \<and>
            scaler_mean sc = map average X_train \<and>
            scaler_scale sc = map unit_or_deviation X_train \<and>
            fit_transform X_train = Inr (sc, standardized_by X_train X_train) \<and>
            transform sc X_test = Inr (standardized_by X_train X_test)"
    using sc stats tr by (intro exI [of _ sc] conjI)
  then show ?thesis
    using standardized_average [OF ok(1)] standardized_deviation [OF ok(1)] first search only
    by (intro conjI allI impI)
qed

lemma identity_shuffle_length: "length identity_shuffle = 52"
  by (simp add: identity_shuffle_def)

lemma standardized_small:
  "standardized_by (replicate 9 [1, 1]) (replicate 9 [1, 1]) = replicate 9 [0, 0]"
  "standardized_by (replicate 9 [1, 1]) (replicate 9 (replicate 50 1)) =
     replicate 9 (replicate 50 0)"
  by (simp_all add: standardized_by_def average_def map_replicate_const)

text \<open>The 52 rows in their original order, with split size 50.\<close>

theorem standardization_fitted_on_train_witness:
  "column small_dataset ''target'' = Inr (1 # replicate 51 0) \<and>
   length identity_shuffle = length (1 # replicate 51 (0::real)) \<and>
   train_test_split identity_shuffle (drop_column small_dataset ''target'')
       (1 # replicate 51 0) (split_size split_fifty) =
     Inr (replicate 9 [1, 1], replicate 9 (replicate 50 1), [0, 0], 1 # replicate 49 0) \<and>
   drop_column small_dataset ''target'' \<noteq> [] \<and>
   fit_transform (replicate 9 [1, 1]) =
     Inr (\<lparr> scaler_mean = replicate 9 1, scaler_scale = replicate 9 1 \<rparr>,
          replicate 9 [0, 0]) \<and>
   standardized_by (replicate 9 [1, 1]) (replicate 9 [1, 1]) = replicate 9 [0, 0] \<and>
   standardized_by (replicate 9 [1, 1]) (replicate 9 (replicate 50 1)) =
     replicate 9 (replicate 50 0) \<and>
   take 7 (fst (model stub_library split_fifty small_grid identity_shuffle small_dataset)) =
     [Train_test_split 50, Fit_transform, Transform,
      New_forest \<lparr> random_state = 42, bootstrap = True, n_jobs = 1 \<rparr>,
      New_search small_grid 2, Search_fit (replicate 9 [0, 0]) [0, 0] 2,
      Predict (replicate 9 (replicate 50 0))]"
  using standardization_fitted_on_train
    [where df = small_dataset and Y = "1 # replicate 51 0"
       and permutation = identity_shuffle and c = split_fifty
       and X_train = "replicate 9 [1, 1]" and X_test = "replicate 9 (replicate 50 1)"
       and Y_train = "[0, 0]" and Y_test = "1 # replicate 49 0" and lib = stub_library
       and g = small_grid
       and rf = "\<lparr> random_state = 42, bootstrap = True, n_jobs = 1 \<rparr>"]
  by (simp add: small_frame_target small_frame_features split_identity split_fifty_values
      identity_shuffle_length fit_small standardized_small stub_init stub_fit_one_class)

subsection \<open>The accuracy surface\<close>

lemma groupby_mean_rows:
  assumes "grid_results \<noteq> []"
  shows "groupby_mean grid_results =
           Inr (map (\<lambda>k. (k, mean (map snd (filter (\<lambda>r. group_key r = k) grid_results))))
                    (sort (remdups (map group_key grid_results))))"
  using assms by (simp add: groupby_mean_def)

lemma map_of_keys:
  "map_of (map (\<lambda>k. (k, f k)) ks) k = (if k \<in> set ks then Some (f k) else None)"
  by (simp add: map_of_map_restrict restrict_map_def)

lemma pivot_keyed:
  assumes "distinct ks"
  shows "pivot (map (\<lambda>k. (k, f k)) ks) =
           Inr (sort (remdups (map fst ks)), sort (remdups (map snd ks)),
                map (\<lambda>d. map (\<lambda>n. if (d, n) \<in> set ks then Some (f (d, n)) else None)
                               (sort (remdups (map snd ks))))
                    (sort (remdups (map fst ks))))"
  using assms by (simp add: pivot_def comp_def map_of_keys Let_def)

lemma surface_rows:
  assumes "grid_results \<noteq> []"
  shows "surface grid_results =
           Inr (sort (remdups (map (cand_n_estimators \<circ> fst) grid_results)),
                sort (remdups (map (cand_max_depth \<circ> fst) grid_results)),
                map (\<lambda>d. map (\<lambda>n.
                       if (d, n) \<in> group_key ` set grid_results
                       then Some (mean (map snd (filter (\<lambda>r. group_key r = (d, n)) grid_results)))
                       else None)
                     (sort (remdups (map (cand_n_estimators \<circ> fst) grid_results))))
                  (sort (remdups (map (cand_max_depth \<circ> fst) grid_results))))"
proof -
  let ?ks = "sort (remdups (map group_key grid_results))"
  have d: "distinct ?ks" by simp
  have s: "set ?ks = group_key ` set grid_results" by simp
  have f: "sort (remdups (map fst ?ks)) = sort (remdups (map (cand_max_depth \<circ> fst) grid_results))"
    by (intro sorted_distinct_set_unique) (simp_all add: image_image group_key_def)
  have n: "sort (remdups (map snd ?ks)) = sort (remdups (map (cand_n_estimators \<circ> fst) grid_results))"
    by (intro sorted_distinct_set_unique) (simp_all add: image_image group_key_def)
  have p: "pivot (map (\<lambda>k. (k, mean (map snd (filter (\<lambda>r. group_key r = k) grid_results)))) ?ks) =
           Inr (sort (remdups (map fst ?ks)), sort (remdups (map snd ?ks)),
                map (\<lambda>d. map (\<lambda>n. if (d, n) \<in> set ?ks
                       then Some (mean (map snd (filter (\<lambda>r. group_key r = (d, n)) grid_results)))
                       else None)
                     (sort (remdups (map snd ?ks))))
                  (sort (remdups (map fst ?ks))))"
    by (rule pivot_keyed [OF d])
  have "surface grid_results =
          (case pivot (map (\<lambda>k. (k, mean (map snd (filter (\<lambda>r. group_key r = k) grid_results)))) ?ks) of
             Inl e \<Rightarrow> Inl e
           | Inr (index, columns, values) \<Rightarrow> Inr (columns, index, values))"
    by (simp add: surface_def groupby_mean_rows [OF assms])
  also have "\<dots> = Inr (sort (remdups (map snd ?ks)), sort (remdups (map fst ?ks)),
                map (\<lambda>d. map (\<lambda>n. if (d, n) \<in> set ?ks
                       then Some (mean (map snd (filter (\<lambda>r. group_key r = (d, n)) grid_results)))
                       else None)
                     (sort (remdups (map snd ?ks))))
                  (sort (remdups (map fst ?ks))))"
    by (subst p) simp
  finally show ?thesis
    unfolding f n s .
qed

text \<open>
  Claim C10. For every score table with at least one row, rectangular or not, lines 93
  to 100 raise nothing and give \<open>x\<close>, the distinct \<open>n_estimators\<close> in ascending order,
  \<open>y\<close>, the distinct \<open>max_depth\<close> in ascending order, and \<open>z\<close> with one row per element
  of \<open>y\<close> and one cell per element of \<open>x\<close>: the mean score of the grid points with that
  depth and that number of estimators, and NaN where there is none.
\<close>

theorem surface_handles_missing_cells:
  assumes "grid_results \<noteq> []"
  shows "\<exists>x y z. surface grid_results = Inr (x, y, z) \<and>
           sorted x \<and> distinct x \<and> set x = (cand_n_estimators \<circ> fst) ` set grid_results \<and>
           sorted y \<and> distinct y \<and> set y = (cand_max_depth \<circ> fst) ` set grid_results \<and>
           length z = length y \<and> list_all (\<lambda>row. length row = length x) z \<and>
           (\<forall>i < length y. \<forall>j < length x.
              z ! i ! j =
                (if (y ! i, x ! j) \<in> group_key ` set grid_results
                 then Some (mean (map snd
                        (filter (\<lambda>r. group_key r = (y ! i, x ! j)) grid_results)))
                 else None))"
proof -
  let ?x = "sort (remdups (map (cand_n_estimators \<circ> fst) grid_results))"
  let ?y = "sort (remdups (map (cand_max_depth \<circ> fst) grid_results))"
  let ?cell = "\<lambda>d n. if (d, n) \<in> group_key ` set grid_results
                 then Some (mean (map snd (filter (\<lambda>r. group_key r = (d, n)) grid_results)))
                 else None"
  show ?thesis
    by (rule exI [of _ ?x], rule exI [of _ ?y],
        rule exI [of _ "map (\<lambda>d. map (?cell d) ?x) ?y"])
      (simp add: surface_rows [OF assms] list_all_iff)
qed

lemma surface_ragged:
  "surface ragged_table = Inr ([10, 20], [5, 7], [[Some (7 / 10), None], [None, Some (9 / 10)]])"
  by code_simp

text \<open>Two of the four cells of the table \<open>ragged_table\<close> have no grid point.\<close>

theorem surface_handles_missing_cells_witness:
  "ragged_table \<noteq> [] \<and>
   (\<exists>x y z. surface ragged_table = Inr (x, y, z) \<and>
      x = [10, 20] \<and> y = [5, 7] \<and> z = [[Some (7 / 10), None], [None, Some (9 / 10)]] \<and>
      sorted x \<and> distinct x \<and> set x = (cand_n_estimators \<circ> fst) ` set ragged_table \<and>
      sorted y \<and> distinct y \<and> set y = (cand_max_depth \<circ> fst) ` set ragged_table \<and>
      length z = length y \<and> list_all (\<lambda>row. length row = length x) z \<and>
      z ! 0 ! 1 = None \<and> (5, 20) \<notin> group_key ` set ragged_table)"
proof -
  have ne: "ragged_table \<noteq> []"
    by (simp add: ragged_table_def)
  from surface_handles_missing_cells [OF ne] obtain x y z
    where s: "surface ragged_table = Inr (x, y, z)"
      and p: "sorted x" "distinct x" "set x = (cand_n_estimators \<circ> fst) ` set ragged_table"
        "sorted y" "distinct y" "set y = (cand_max_depth \<circ> fst) ` set ragged_table"
        "length z = length y" "list_all (\<lambda>row. length row = length x) z"
    by (elim exE conjE) (rule that)
  from s have v: "x = [10, 20]" "y = [5, 7]"
      "z = [[Some (7 / 10), None], [None, Some (9 / 10)]]"
    by (simp_all add: surface_ragged)
  have c: "z ! 0 ! 1 = None"
    by (simp add: v)
  have k: "(5, 20) \<notin> group_key ` set ragged_table"
    by (simp add: ragged_table_def group_key_def)
  show ?thesis
    by (intro conjI exI [of _ x] exI [of _ y] exI [of _ z]) (rule ne s p v c k)+
qed

subsection \<open>The metrics, had they been reached\<close>

text \<open>
  What lines 126 and 140 would compute if the names they read were bound: a class
  without true positives and without predicted positives gets precision, recall and
  F1 score 0 with the warning, and the cells of the confusion matrix add up to the
  number of samples.
\<close>

lemma report_for_degenerate:
  assumes "count_pairs (\<lambda>(t, p). t = l \<and> p = l) y_true y_pred = 0"
    and "count_pairs (\<lambda>(t, p). p = l) y_true y_pred = 0"
  shows "precision (report_for y_true y_pred l) = 0"
    and "recall (report_for y_true y_pred l) = 0"
    and "f1_score (report_for y_true y_pred l) = 0"
    and "undefined_metric (report_for y_true y_pred l)"
  using assms by (simp_all add: report_for_def ratio_def Let_def)

lemma sum_list_single:
  assumes "distinct cs" "a \<in> set cs"
  shows "(\<Sum>t\<leftarrow>cs. if a = t then f t else (0::nat)) = f a"
  using assms by (induction cs) auto

lemma cell_counts_total:
  assumes "distinct cs" "fst ` set zs \<subseteq> set cs" "snd ` set zs \<subseteq> set cs"
  shows "(\<Sum>t\<leftarrow>cs. \<Sum>p\<leftarrow>cs. length (filter (\<lambda>(a, b). a = t \<and> b = p) zs)) = length zs"
  using assms(2,3)
proof (induction zs)
  case Nil
  then show ?case by (simp add: sum_list_0)
next
  case (Cons z zs)
  obtain a b where z: "z = (a, b)" by (cases z)
  have ab: "a \<in> set cs" "b \<in> set cs" using Cons.prems z by auto
  have "(\<Sum>t\<leftarrow>cs. \<Sum>p\<leftarrow>cs. length (filter (\<lambda>(a, b). a = t \<and> b = p) (z # zs))) =
        (\<Sum>t\<leftarrow>cs. \<Sum>p\<leftarrow>cs. (if a = t \<and> b = p then 1 else 0) +
             length (filter (\<lambda>(a, b). a = t \<and> b = p) zs))"
    by (intro arg_cong [where f = sum_list] map_cong refl) (auto simp: z)
  also have "\<dots> = (\<Sum>t\<leftarrow>cs. \<Sum>p\<leftarrow>cs. (if a = t \<and> b = p then 1 else 0)) +
        (\<Sum>t\<leftarrow>cs. \<Sum>p\<leftarrow>cs. length (filter (\<lambda>(a, b). a = t \<and> b = p) zs))"
    by (simp add: sum_list_addf)
  also have "(\<Sum>t\<leftarrow>cs. \<Sum>p\<leftarrow>cs. (if a = t \<and> b = p then 1 else (0::nat))) =
        (\<Sum>t\<leftarrow>cs. if a = t then (\<Sum>p\<leftarrow>cs. if b = p then 1 else 0) else 0)"
    by (intro arg_cong [where f = sum_list] map_cong refl) (simp add: sum_list_0)
  also have "\<dots> = 1"
    by (simp add: sum_list_single [OF assms(1) ab(1)] sum_list_single [OF assms(1) ab(2)])
  finally show ?case using Cons by simp
qed

lemma confusion_matrix_total:
  assumes "length y_true = length y_pred"
  shows "\<exists>cm. confusion_matrix y_true y_pred = Inr cm \<and>
           sum_list (map sum_list cm) = length y_true"
proof -
  let ?cs = "sort (remdups (y_true @ y_pred))"
  have "fst ` set (zip y_true y_pred) \<subseteq> set ?cs" "snd ` set (zip y_true y_pred) \<subseteq> set ?cs"
    by (auto dest: set_zip_leftD set_zip_rightD)
  from cell_counts_total [OF _ this] have
    "(\<Sum>t\<leftarrow>?cs. \<Sum>p\<leftarrow>?cs. length (filter (\<lambda>(a, b). a = t \<and> b = p) (zip y_true y_pred))) =
       length (zip y_true y_pred)"
    by simp
  then show ?thesis
    using assms by (simp add: confusion_matrix_def count_pairs_def Let_def comp_def)
qed

subsection \<open>The example configurations can be set on the sidebar\<close>

lemma examples_are_widget_values:
  "widget_values default_config" "widget_values depth_step_two"
  "widget_values depth_step_three" "widget_values split_fifty"
  "widget_values ten_folds" "widget_values no_max_features"
  by (simp_all add: widget_values_def default_config_def depth_step_two_def
      depth_step_three_def split_fifty_def ten_folds_def no_max_features_def)

end
